theory Spec2Isabelle
  imports Complex_Main
begin

section \<open>Numbers and vectors\<close>

text \<open>
  The script computes with numpy \<open>float64\<close> scalars and arrays of three of them.
  A \<open>float64\<close> is modelled as a real number, or the value \<open>NaN\<close> that numpy
  produces for \<open>0/0\<close> and propagates through every later operation. The operations
  of this section and the next two are the exact ones on the reals; the section on
  binary64 evaluation gives the same statements of the script with every result rounded
  to the nearest binary64 number, for the properties that depend on the rounding.
\<close>

datatype f64 = Finite real | NaN

type_synonym vec3 = "real \<times> real \<times> real"
type_synonym fvec3 = "f64 \<times> f64 \<times> f64"

fun f_add :: "f64 \<Rightarrow> f64 \<Rightarrow> f64" where
  "f_add (Finite a) (Finite b) = Finite (a + b)"
| "f_add _ _ = NaN"

fun f_sub :: "f64 \<Rightarrow> f64 \<Rightarrow> f64" where
  "f_sub (Finite a) (Finite b) = Finite (a - b)"
| "f_sub _ _ = NaN"

fun f_mul :: "f64 \<Rightarrow> f64 \<Rightarrow> f64" where
  "f_mul (Finite a) (Finite b) = Finite (a * b)"
| "f_mul _ _ = NaN"

text \<open>Comparisons with a \<open>NaN\<close> operand: \<open><\<close> is false, \<open>!=\<close> is true.\<close>

fun f_lt :: "f64 \<Rightarrow> f64 \<Rightarrow> bool" where
  "f_lt (Finite a) (Finite b) = (a < b)"
| "f_lt _ _ = False"

fun f_ne :: "f64 \<Rightarrow> f64 \<Rightarrow> bool" where
  "f_ne (Finite a) (Finite b) = (a \<noteq> b)"
| "f_ne _ _ = True"

text \<open>\<open>p2 - p1\<close> on two position rows (finite coordinates).\<close>

fun vsub :: "vec3 \<Rightarrow> vec3 \<Rightarrow> vec3" where
  "vsub (a1, a2, a3) (b1, b2, b3) = (a1 - b1, a2 - b2, a3 - b3)"

text \<open>\<open>np.cross\<close> on finite vectors.\<close>

fun np_cross :: "vec3 \<Rightarrow> vec3 \<Rightarrow> vec3" where
  "np_cross (a1, a2, a3) (b1, b2, b3) =
     (a2 * b3 - a3 * b2, a3 * b1 - a1 * b3, a1 * b2 - a2 * b1)"

text \<open>\<open>np.linalg.norm\<close> of a finite vector.\<close>

fun np_norm :: "vec3 \<Rightarrow> real" where
  "np_norm (a1, a2, a3) = sqrt (a1 * a1 + a2 * a2 + a3 * a3)"

text \<open>
  \<open>n /= np.linalg.norm(n)\<close>: every component is divided by the norm. The norm is zero
  only when all three components are zero, so the only division by zero that can occur
  here is \<open>0/0\<close>, which numpy evaluates to \<open>nan\<close> (with a warning, not an exception),
  in all three components.
\<close>

fun div_by_norm :: "vec3 \<Rightarrow> fvec3" where
  "div_by_norm (a1, a2, a3) =
     (let r = np_norm (a1, a2, a3)
      in if r = 0 then (NaN, NaN, NaN)
         else (Finite (a1 / r), Finite (a2 / r), Finite (a3 / r)))"

text \<open>A finite vector used as an operand next to a \<open>float64\<close> array.\<close>

fun as_f64 :: "vec3 \<Rightarrow> fvec3" where
  "as_f64 (a1, a2, a3) = (Finite a1, Finite a2, Finite a3)"

text \<open>\<open>np.dot\<close> and \<open>np.cross\<close> on arrays that may hold \<open>NaN\<close>.\<close>

fun f_dot :: "fvec3 \<Rightarrow> fvec3 \<Rightarrow> f64" where
  "f_dot (a1, a2, a3) (b1, b2, b3) =
     f_add (f_add (f_mul a1 b1) (f_mul a2 b2)) (f_mul a3 b3)"

fun f_cross :: "fvec3 \<Rightarrow> fvec3 \<Rightarrow> fvec3" where
  "f_cross (a1, a2, a3) (b1, b2, b3) =
     (f_sub (f_mul a2 b3) (f_mul a3 b2),
      f_sub (f_mul a3 b1) (f_mul a1 b3),
      f_sub (f_mul a1 b2) (f_mul a2 b1))"

text \<open>\<open>np.clip(x, lo, hi)\<close> is \<open>minimum(maximum(x, lo), hi)\<close>; a \<open>NaN\<close> stays \<open>NaN\<close>.\<close>

fun np_clip :: "f64 \<Rightarrow> real \<Rightarrow> real \<Rightarrow> f64" where
  "np_clip (Finite x) lo hi = Finite (min (max x lo) hi)"
| "np_clip NaN lo hi = NaN"

text \<open>\<open>np.arccos\<close>: \<open>nan\<close> outside \<open>[-1, 1]\<close> and on \<open>nan\<close>.\<close>

fun np_arccos :: "f64 \<Rightarrow> f64" where
  "np_arccos (Finite x) = (if - 1 \<le> x \<and> x \<le> 1 then Finite (arccos x) else NaN)"
| "np_arccos NaN = NaN"

text \<open>\<open>np.sign\<close>: \<open>-1\<close>, \<open>0\<close> or \<open>1\<close>; \<open>nan\<close> on \<open>nan\<close>.\<close>

fun np_sign :: "f64 \<Rightarrow> f64" where
  "np_sign (Finite x) = Finite (if x < 0 then - 1 else if x = 0 then 0 else 1)"
| "np_sign NaN = NaN"

text \<open>\<open>np.degrees\<close>.\<close>

fun np_degrees :: "f64 \<Rightarrow> f64" where
  "np_degrees (Finite x) = Finite (x * 180 / pi)"
| "np_degrees NaN = NaN"

section \<open>The dihedral angle\<close>

text \<open>\<open>calc_dihedral(p1, p2, p3, p4)\<close>, statement by statement.\<close>

definition calc_dihedral :: "vec3 \<Rightarrow> vec3 \<Rightarrow> vec3 \<Rightarrow> vec3 \<Rightarrow> f64" where
  "calc_dihedral p1 p2 p3 p4 =
     (let b1 = vsub p2 p1;
          b2 = vsub p3 p2;
          b3 = vsub p4 p3;
          n1 = np_cross b1 b2;
          n2 = np_cross b2 b3;
          n1 = div_by_norm n1;
          n2 = div_by_norm n2;
          cos_phi = np_clip (f_dot n1 n2) (- 1) 1;
          phi = np_arccos cos_phi;
          sign = np_sign (f_dot (as_f64 b2) (f_cross n1 n2));
          phi = (if f_ne sign (Finite 0) then f_mul phi sign else phi)
      in np_degrees phi)"


text \<open>
  The quantities the specification names, as plain real-valued functions: the dot
  product, a vector scaled to unit length, the two unit plane normals, the unsigned
  angle \<open>\<phi> = arccos(clamp(n1\<cdot>n2, -1, 1))\<close> and \<open>sign(b2\<cdot>(n1\<times>n2))\<close>.
\<close>

fun dot3 :: "vec3 \<Rightarrow> vec3 \<Rightarrow> real" where
  "dot3 (a1, a2, a3) (b1, b2, b3) = a1 * b1 + a2 * b2 + a3 * b3"

fun unit3 :: "vec3 \<Rightarrow> vec3" where
  "unit3 (a1, a2, a3) =
     (a1 / np_norm (a1, a2, a3), a2 / np_norm (a1, a2, a3), a3 / np_norm (a1, a2, a3))"

fun vneg :: "vec3 \<Rightarrow> vec3" where
  "vneg (a1, a2, a3) = (- a1, - a2, - a3)"

definition nondegenerate :: "vec3 \<Rightarrow> vec3 \<Rightarrow> vec3 \<Rightarrow> vec3 \<Rightarrow> bool" where
  "nondegenerate p1 p2 p3 p4 \<longleftrightarrow>
     np_cross (vsub p2 p1) (vsub p3 p2) \<noteq> (0, 0, 0) \<and>
     np_cross (vsub p3 p2) (vsub p4 p3) \<noteq> (0, 0, 0)"

definition unit_normals :: "vec3 \<Rightarrow> vec3 \<Rightarrow> vec3 \<Rightarrow> vec3 \<Rightarrow> vec3 \<times> vec3" where
  "unit_normals p1 p2 p3 p4 =
     (unit3 (np_cross (vsub p2 p1) (vsub p3 p2)), unit3 (np_cross (vsub p3 p2) (vsub p4 p3)))"

definition unsigned_phi :: "vec3 \<Rightarrow> vec3 \<Rightarrow> vec3 \<Rightarrow> vec3 \<Rightarrow> real" where
  "unsigned_phi p1 p2 p3 p4 =
     (case unit_normals p1 p2 p3 p4 of (n1, n2) \<Rightarrow> arccos (min (max (dot3 n1 n2) (- 1)) 1))"

definition phi_sign :: "vec3 \<Rightarrow> vec3 \<Rightarrow> vec3 \<Rightarrow> vec3 \<Rightarrow> real" where
  "phi_sign p1 p2 p3 p4 =
     (case unit_normals p1 p2 p3 p4 of (n1, n2) \<Rightarrow> sgn (dot3 (vsub p3 p2) (np_cross n1 n2)))"

section \<open>Reporting the achieved angle\<close>

text \<open>
  \<open>x % y\<close> on a \<open>float64\<close>: the remainder of floored division, with the sign of the
  divisor; \<open>nan\<close> for a zero divisor or a \<open>nan\<close> operand.
\<close>

fun np_mod :: "f64 \<Rightarrow> real \<Rightarrow> f64" where
  "np_mod (Finite x) y = (if y = 0 then NaN else Finite (x - y * of_int \<lfloor>x / y\<rfloor>))"
| "np_mod NaN y = NaN"

text \<open>
  The three statements that follow the second \<open>calc_dihedral\<close> call:
  \<^verbatim>\<open>actual_angle_deg = actual_angle_deg % 360\<close>,
  \<^verbatim>\<open>if actual_angle_deg < 0: actual_angle_deg += 360\<close>.
\<close>

definition normalize_to_0_360 :: "f64 \<Rightarrow> f64" where
  "normalize_to_0_360 a =
     (let a1 = np_mod a 360
      in if f_lt a1 (Finite 0) then f_add a1 (Finite 360) else a1)"

section \<open>Binary64 evaluation\<close>

text \<open>
  IEEE 754 binary64 with round-to-nearest, ties to even. A finite binary64 number is a
  real of the form \<open>n * 2^(e - 52)\<close> with \<open>|n| < 2^53\<close> and \<open>e \<ge> -1022\<close>. \<open>rne\<close> rounds a
  real to the nearest integer, a tie to the even one; \<open>binade x\<close> is the exponent \<open>e\<close> with
  \<open>2^e \<le> |x| < 2^(e + 1)\<close>; \<open>ulp x\<close> is the spacing of binary64 numbers around \<open>x\<close>
  (constant below \<open>2^-1022\<close>, the subnormal range); \<open>rd x\<close> is \<open>x\<close> rounded to binary64.
  Overflow to infinity is outside this model.
\<close>

definition rne :: "real \<Rightarrow> int" where
  "rne t =
     (let f = \<lfloor>t\<rfloor>; d = t - of_int f
      in if d < 1 / 2 then f else if 1 / 2 < d then f + 1 else if even f then f else f + 1)"

definition binade :: "real \<Rightarrow> int" where
  "binade x = \<lfloor>log 2 \<bar>x\<bar>\<rfloor>"

definition ulp :: "real \<Rightarrow> real" where
  "ulp x = 2 powi (max (binade x) (- 1022) - 52)"

definition rd :: "real \<Rightarrow> real" where
  "rd x = (if x = 0 then 0 else of_int (rne (x / ulp x)) * ulp x)"

fun f_round :: "f64 \<Rightarrow> f64" where
  "f_round (Finite x) = Finite (rd x)"
| "f_round NaN = NaN"

text \<open>The arithmetic operators on binary64: the exact result, rounded.\<close>

fun b_add :: "f64 \<Rightarrow> f64 \<Rightarrow> f64" where
  "b_add a b = f_round (f_add a b)"



subsection \<open>The modulo of the report\<close>

text \<open>
  C's \<open>fmod\<close>: the remainder of the division truncated towards zero. It has the sign of
  \<open>x\<close> and is exact on binary64 operands.
\<close>

definition c_fmod :: "real \<Rightarrow> real \<Rightarrow> real" where
  "c_fmod x y = x - y * of_int (if 0 \<le> x / y then \<lfloor>x / y\<rfloor> else \<lceil>x / y\<rceil>)"

text \<open>
  \<open>x % y\<close> on a \<open>float64\<close>, as numpy computes it:
  \<^verbatim>\<open>mod = fmod(a, b); if (mod) { if ((b < 0) != (mod < 0)) mod += b; }\<close>
  \<^verbatim>\<open>else mod = copysign(0, b);\<close>
  The sum \<open>mod + b\<close> is a binary64 addition, so it is rounded.
\<close>

fun np_remainder :: "f64 \<Rightarrow> real \<Rightarrow> f64" where
  "np_remainder (Finite x) y =
     (if y = 0 then NaN
      else let m = c_fmod x y
           in Finite (if m \<noteq> 0 then (if (y < 0) \<noteq> (m < 0) then rd (m + y) else m) else 0))"
| "np_remainder NaN y = NaN"

text \<open>
  The same three statements as \<open>normalize_to_0_360\<close>, on binary64:
  \<^verbatim>\<open>actual_angle_deg = actual_angle_deg % 360\<close>,
  \<^verbatim>\<open>if actual_angle_deg < 0: actual_angle_deg += 360\<close>.
\<close>

definition normalize_to_0_360_b64 :: "f64 \<Rightarrow> f64" where
  "normalize_to_0_360_b64 a =
     (let a1 = np_remainder a 360
      in if f_lt a1 (Finite 0) then b_add a1 (Finite 360) else a1)"

subsection \<open>The dihedral angle\<close>












section \<open>The driver\<close>

datatype error = IndexError | TypeError | LibraryError

type_synonym idx4 = "int \<times> int \<times> int \<times> int"

text \<open>
  An \<open>ase.Atoms\<close> object: one row per atom (chemical symbol and position), the cell,
  the periodicity flags, and the two entries of \<open>atoms.info\<close> the script writes.
\<close>

record atoms =
  rows :: "(string \<times> vec3) list"
  cell :: "vec3 list"
  pbc :: "bool list"
  info_charge :: "f64 option"
  info_spin :: "f64 option"

text \<open>
  The parsed command line. \<open>--dihedral_indices\<close> has \<open>nargs=4\<close>, so it is absent or
  exactly four integers; \<open>--dihedral_angle\<close> is absent or one float.
\<close>

record args =
  input_file :: string
  output_file :: string
  charge :: f64
  spin :: f64
  dihedral_indices :: "idx4 option"
  dihedral_angle :: "f64 option"

text \<open>
  What the optimisation leaves behind: the relaxed structure, the potential energy, and
  the lines the optimiser logged on standard output.
\<close>

record relaxed =
  final_atoms :: atoms
  final_energy :: f64
  log_lines :: "string list"

text \<open>
  The library code the script calls, as parameters: \<open>__file__\<close>; \<open>ase.io.read\<close>;
  the block from \<open>FixInternals\<close>/\<open>set_constraint\<close> through the calculator set-up,
  \<open>BFGS(atoms).run(fmax=0.05)\<close> and \<open>get_potential_energy\<close>, which receives the
  structure and the list \<open>dihedral_constraint\<close> (empty for an unconstrained run) and may
  fail; the float formatting \<open>format(x, '.Nf')\<close>; and \<open>str\<close> of a float.
\<close>

record env =
  script_file :: string
  ase_read :: "string \<Rightarrow> atoms"
  relax :: "atoms \<Rightarrow> (f64 \<times> idx4) list \<Rightarrow> error + relaxed"
  fmt_f :: "nat \<Rightarrow> f64 \<Rightarrow> string"
  str_float :: "f64 \<Rightarrow> string"

subsection \<open>Strings\<close>

fun str_nat :: "nat \<Rightarrow> string" where
  "str_nat n =
     (if n < 10 then [''0123456789'' ! n]
      else str_nat (n div 10) @ [''0123456789'' ! (n mod 10)])"

declare str_nat.simps [simp del]

definition str_int :: "int \<Rightarrow> string" where
  "str_int i = (if i < 0 then CHR ''-'' # str_nat (nat (- i)) else str_nat (nat i))"

fun join :: "string \<Rightarrow> string list \<Rightarrow> string" where
  "join sep [] = []"
| "join sep [x] = x"
| "join sep (x # y # ys) = x @ sep @ join sep (y # ys)"

fun list_of_idx4 :: "idx4 \<Rightarrow> int list" where
  "list_of_idx4 (i, j, k, l) = [i, j, k, l]"

text \<open>\<open>str\<close> of a list of integers, as an f-string renders it.\<close>

definition str_int_list :: "int list \<Rightarrow> string" where
  "str_int_list xs = ''['' @ join '', '' (map str_int xs) @ '']''"

text \<open>Width-padded fields: \<open>{s:2s}\<close> pads on the right, \<open>{x:15.8f}\<close> on the left.\<close>

definition ljust :: "nat \<Rightarrow> string \<Rightarrow> string" where
  "ljust w s = s @ replicate (w - length s) CHR '' ''"

definition rjust :: "nat \<Rightarrow> string \<Rightarrow> string" where
  "rjust w s = replicate (w - length s) CHR '' '' @ s"

text \<open>The two non-ASCII characters the script prints, as their UTF-8 bytes.\<close>

definition arrow :: string where
  "arrow = [CHR 0xE2, CHR 0x86, CHR 0x92]"

definition degree_sign :: string where
  "degree_sign = [CHR 0xC2, CHR 0xB0]"

subsection \<open>Before the optimisation\<close>

text \<open>
  \<open>p[i]\<close> on the positions array with a Python integer: a negative index counts from
  the end, and an index outside \<open>[-n, n)\<close> raises \<open>IndexError\<close>.
\<close>

definition np_row :: "vec3 list \<Rightarrow> int \<Rightarrow> error + vec3" where
  "np_row p i =
     (let n = int (length p); j = (if i < 0 then n + i else i)
      in if 0 \<le> j \<and> j < n then Inr (p ! nat j) else Inl IndexError)"

definition get_positions :: "atoms \<Rightarrow> vec3 list" where
  "get_positions a = map snd (rows a)"

definition get_chemical_symbols :: "atoms \<Rightarrow> string list" where
  "get_chemical_symbols a = map fst (rows a)"

text \<open>
  \<^verbatim>\<open>use_dihedral_constraint = args.dihedral_indices is not None\<close>. Each
  \<^verbatim>\<open>if use_dihedral_constraint:\<close> of the script is, below, the case distinction on
  \<open>dihedral_indices\<close> that also binds the four indices.
\<close>

definition use_dihedral_constraint :: "args \<Rightarrow> bool" where
  "use_dihedral_constraint a \<longleftrightarrow> dihedral_indices a \<noteq> None"

fun dihedral_indices_0based :: "idx4 \<Rightarrow> idx4" where
  "dihedral_indices_0based (i, j, k, l) = (i - 1, j - 1, k - 1, l - 1)"

text \<open>
  \<^verbatim>\<open>i, j, k, l = dihedral_indices_0based; p = atoms.get_positions();\<close>
  \<^verbatim>\<open>calc_dihedral(p[i], p[j], p[k], p[l])\<close>: the four rows are fetched left to right.
\<close>

fun dihedral_of :: "atoms \<Rightarrow> idx4 \<Rightarrow> error + f64" where
  "dihedral_of a (i, j, k, l) =
     (let p = get_positions a
      in (case np_row p i of Inl e \<Rightarrow> Inl e | Inr q1 \<Rightarrow>
         (case np_row p j of Inl e \<Rightarrow> Inl e | Inr q2 \<Rightarrow>
         (case np_row p k of Inl e \<Rightarrow> Inl e | Inr q3 \<Rightarrow>
         (case np_row p l of Inl e \<Rightarrow> Inl e | Inr q4 \<Rightarrow>
            Inr (calc_dihedral q1 q2 q3 q4))))))"

declare dihedral_of.simps [simp del]

text \<open>The choice of \<open>target_angle\<close>.\<close>

definition target_angle :: "atoms \<Rightarrow> args \<Rightarrow> idx4 \<Rightarrow> error + f64" where
  "target_angle a ar idx0 =
     (case dihedral_angle ar of
        None \<Rightarrow> dihedral_of a idx0
      | Some t \<Rightarrow> Inr t)"

text \<open>
  The list \<open>dihedral_constraint = [(target_angle, dihedral_indices_0based)]\<close> handed to
  \<open>FixInternals\<close>; the empty list of \<open>atoms.set_constraint([])\<close> when no indices are
  given.
\<close>

definition dihedral_constraint :: "atoms \<Rightarrow> args \<Rightarrow> error + (f64 \<times> idx4) list" where
  "dihedral_constraint a ar =
     (case dihedral_indices ar of
        None \<Rightarrow> Inr []
      | Some idx \<Rightarrow>
          (case target_angle a ar (dihedral_indices_0based idx) of
             Inl e \<Rightarrow> Inl e
           | Inr t \<Rightarrow> Inr [(t, dihedral_indices_0based idx)]))"

text \<open>The lines printed while the constraint is set up.\<close>

definition setup_lines :: "env \<Rightarrow> atoms \<Rightarrow> args \<Rightarrow> string list" where
  "setup_lines ev a ar =
     (case dihedral_indices ar of
        None \<Rightarrow> [''No dihedral constraint applied. Performing unconstrained optimization.'']
      | Some idx \<Rightarrow>
          [''Constraining dihedral '' @ str_int_list (list_of_idx4 idx) @ '' (1-based) ''
             @ arrow @ '' '' @ str_int_list (list_of_idx4 (dihedral_indices_0based idx))
             @ '' (0-based)'']
          @ (case target_angle a ar (dihedral_indices_0based idx) of
               Inl e \<Rightarrow> []
             | Inr t \<Rightarrow>
                 (case dihedral_angle ar of
                    None \<Rightarrow> [''--dihedral_angle not specified. Using current dihedral angle: ''
                               @ fmt_f ev 2 t @ degree_sign]
                  | Some u \<Rightarrow> [''Using user-specified target dihedral angle: ''
                               @ fmt_f ev 2 t @ degree_sign])))"

subsection \<open>After the optimisation\<close>

text \<open>
  \<open>actual_angle_deg\<close>: \<open>None\<close> without a constraint, otherwise the dihedral of the
  relaxed positions, normalised.
\<close>

definition actual_angle_deg :: "atoms \<Rightarrow> args \<Rightarrow> error + f64 option" where
  "actual_angle_deg a ar =
     (case dihedral_indices ar of
        None \<Rightarrow> Inr None
      | Some idx \<Rightarrow>
          (case dihedral_of a (dihedral_indices_0based idx) of
             Inl e \<Rightarrow> Inl e
           | Inr d \<Rightarrow> Inr (Some (normalize_to_0_360 d))))"

definition angle_source :: "args \<Rightarrow> string" where
  "angle_source ar = (if dihedral_angle ar = None then ''fixed_current'' else ''user_specified'')"

text \<open>
  The comment line. Formatting \<open>None\<close> with \<open>:.2f\<close> is a \<open>TypeError\<close> in Python.
\<close>

definition comment :: "env \<Rightarrow> args \<Rightarrow> f64 option \<Rightarrow> f64 \<Rightarrow> error + string" where
  "comment ev ar actual energy =
     (case dihedral_indices ar of
        Some idx \<Rightarrow>
          (case actual of
             None \<Rightarrow> Inl TypeError
           | Some a \<Rightarrow>
               Inr (''dihedral='' @ join ''-'' (map str_int (list_of_idx4 idx))
                    @ '' actual_angle='' @ fmt_f ev 2 a
                    @ '' energy='' @ fmt_f ev 6 energy
                    @ '' eV charge='' @ str_float ev (charge ar)
                    @ '' spin='' @ str_float ev (spin ar)
                    @ '' constraint_source='' @ angle_source ar))
      | None \<Rightarrow>
          Inr (''energy='' @ fmt_f ev 6 energy
               @ '' eV charge='' @ str_float ev (charge ar)
               @ '' spin='' @ str_float ev (spin ar)))"

text \<open>One line of the output file per atom of \<open>clean_atoms\<close>.\<close>

fun atom_line :: "env \<Rightarrow> string \<times> vec3 \<Rightarrow> string" where
  "atom_line ev (symbol, (x, y, z)) =
     ljust 2 symbol @ '' '' @ rjust 15 (fmt_f ev 8 (Finite x))
       @ '' '' @ rjust 15 (fmt_f ev 8 (Finite y))
       @ '' '' @ rjust 15 (fmt_f ev 8 (Finite z))"

record script_output =
  stdout :: "string list"
  file_name :: string
  file_lines :: "string list"

text \<open>
  \<^verbatim>\<open>atoms = read(args.input_file)\<close> and the two assignments to \<open>atoms.info\<close>.
\<close>

definition load_atoms :: "env \<Rightarrow> args \<Rightarrow> atoms" where
  "load_atoms ev ar =
     (ase_read ev (input_file ar))
       \<lparr>info_charge := Some (charge ar), info_spin := Some (spin ar)\<rparr>"

text \<open>
  Whether row \<open>i\<close> (0-based, as Python indexes) exists in the structure.
\<close>

definition row_exists :: "atoms \<Rightarrow> int \<Rightarrow> bool" where
  "row_exists a i \<longleftrightarrow> - int (length (rows a)) \<le> i \<and> i < int (length (rows a))"

text \<open>The whole script, from the parsed arguments to what it prints and writes.\<close>

definition main :: "env \<Rightarrow> args \<Rightarrow> error + script_output" where
  "main ev ar =
     (let banner = [''Running '' @ script_file ev @ '' version 0.14'', replicate 60 CHR ''-''];
          a = load_atoms ev ar
      in (case dihedral_constraint a ar of Inl e \<Rightarrow> Inl e | Inr cons \<Rightarrow>
         (case relax ev a cons of Inl e \<Rightarrow> Inl e | Inr r \<Rightarrow>
         (case actual_angle_deg (final_atoms r) ar of Inl e \<Rightarrow> Inl e | Inr actual \<Rightarrow>
         (case comment ev ar actual (final_energy r) of Inl e \<Rightarrow> Inl e | Inr c \<Rightarrow>
         Inr \<lparr>stdout =
                 banner @ setup_lines ev a ar
                 @ [''Starting geometry optimization...''] @ log_lines r
                 @ (case actual of
                      None \<Rightarrow> []
                    | Some v \<Rightarrow> [''Actual dihedral angle: '' @ fmt_f ev 2 v @ degree_sign])
                 @ [''Optimization finished.'',
                    ''Final energy: '' @ fmt_f ev 6 (final_energy r) @ '' eV'',
                    ''Optimized structure saved to '' @ output_file ar
                      @ '' with comment: '' @ c],
               file_name = output_file ar,
               file_lines =
                 str_int (int (length (rows (final_atoms r)))) # c
                 # map (atom_line ev) (rows (final_atoms r))\<rparr>)))))"

subsection \<open>Example inputs\<close>

text \<open>
  Two four-atom chains, with dihedrals of \<open>+90\<close> and \<open>-90\<close> degrees, and stand-ins for
  the library: a reader that returns the given structure, an optimiser that leaves it
  unchanged and reports the energy \<open>-1\<close>, and formatters that print \<open>F\<close> for a
  formatted float and \<open>S\<close> for \<open>str\<close> of a float.
\<close>

definition chain_plus90 :: atoms where
  "chain_plus90 =
     \<lparr>rows = [(''C'', (1, 0, 0)), (''C'', (0, 0, 0)), (''C'', (0, 0, 1)), (''C'', (0, 1, 1))],
      cell = [], pbc = [False, False, False], info_charge = None, info_spin = None\<rparr>"

definition chain_minus90 :: atoms where
  "chain_minus90 =
     \<lparr>rows = [(''C'', (1, 0, 0)), (''C'', (0, 0, 0)), (''C'', (0, 0, 1)), (''C'', (0, - 1, 1))],
      cell = [], pbc = [False, False, False], info_charge = None, info_spin = None\<rparr>"

definition stub_env :: "atoms \<Rightarrow> env" where
  "stub_env a =
     \<lparr>script_file = ''opt.py'',
      ase_read = (\<lambda>f. a),
      relax = (\<lambda>b cons. Inr \<lparr>final_atoms = b, final_energy = Finite (- 1), log_lines = []\<rparr>),
      fmt_f = (\<lambda>n x. ''F''),
      str_float = (\<lambda>x. ''S'')\<rparr>"

definition cli :: "idx4 option \<Rightarrow> f64 option \<Rightarrow> args" where
  "cli idx ang =
     \<lparr>input_file = ''in.xyz'', output_file = ''out.xyz'', charge = Finite 0, spin = Finite 1,
      dihedral_indices = idx, dihedral_angle = ang\<rparr>"

text \<open>
  The same stand-ins, with an optimiser that accepts one constraint list only and fails
  on any other.
\<close>

definition strict_env :: "atoms \<Rightarrow> (f64 \<times> idx4) list \<Rightarrow> env" where
  "strict_env a expected =
     (stub_env a)
       \<lparr>relax := (\<lambda>b cons.
          if cons = expected
          then Inr \<lparr>final_atoms = b, final_energy = Finite (- 1), log_lines = []\<rparr>
          else Inl LibraryError)\<rparr>"

section \<open>Properties of the dihedral angle\<close>

subsection \<open>Vector facts\<close>

lemma np_norm_eq_0: "np_norm v = 0 \<longleftrightarrow> v = (0, 0, 0)"
proof (cases v)
  case (fields a b c)
  have "a * a + b * b + c * c = 0 \<longleftrightarrow> a = 0 \<and> b = 0 \<and> c = 0"
    by (metis add_nonneg_eq_0_iff mult_eq_0_iff zero_le_square add.right_neutral
        add_nonneg_nonneg)
  then show ?thesis using fields by simp
qed

lemma div_by_norm_zero: "div_by_norm (0, 0, 0) = (NaN, NaN, NaN)"
  by simp

lemma div_by_norm_nz: "v \<noteq> (0, 0, 0) \<Longrightarrow> div_by_norm v = as_f64 (unit3 v)"
  using np_norm_eq_0[of v] by (cases v) (simp add: Let_def)

lemma f_dot_fin: "f_dot (as_f64 a) (as_f64 b) = Finite (dot3 a b)"
  by (cases a; cases b) simp

lemma f_cross_fin: "f_cross (as_f64 a) (as_f64 b) = as_f64 (np_cross a b)"
  by (cases a; cases b) simp

lemma f_mul_nan_r: "f_mul a NaN = NaN"
  by (cases a) simp_all

lemma f_sub_nan_r: "f_sub a NaN = NaN"
  by (cases a) simp_all

lemma f_add_nan_r: "f_add a NaN = NaN"
  by (cases a) simp_all

lemma f_dot_nan_l: "f_dot (NaN, NaN, NaN) b = NaN"
  by (cases b) simp

lemma f_dot_nan_r: "f_dot a (NaN, NaN, NaN) = NaN"
  by (cases a) simp

lemma f_cross_nan_l: "f_cross (NaN, NaN, NaN) b = (NaN, NaN, NaN)"
  by (cases b) simp

lemma f_cross_nan_r: "f_cross a (NaN, NaN, NaN) = (NaN, NaN, NaN)"
  by (cases a) (simp add: f_mul_nan_r f_sub_nan_r)

lemma np_sign_sgn: "np_sign (Finite x) = Finite (sgn x)"
  by (simp add: sgn_if)

lemma unit3_norm: "v \<noteq> (0, 0, 0) \<Longrightarrow> dot3 (unit3 v) (unit3 v) = 1"
proof (cases v)
  case (fields a b c)
  assume "v \<noteq> (0, 0, 0)"
  then have nz: "np_norm (a, b, c) \<noteq> 0" using np_norm_eq_0[of v] fields by simp
  let ?r = "np_norm (a, b, c)"
  have sq: "?r * ?r = a * a + b * b + c * c"
    by simp
  have "dot3 (unit3 v) (unit3 v) = (a * a + b * b + c * c) / (?r * ?r)"
    using fields by (simp add: add_divide_distrib del: np_norm.simps)
  also have "\<dots> = 1"
  proof -
    have "?r * ?r \<noteq> 0" using nz by (simp del: np_norm.simps)
    then show ?thesis unfolding sq by simp
  qed
  finally show ?thesis .
qed

text \<open>Two unit vectors whose dot product is \<open>-1\<close> (or less) are opposite, hence parallel.\<close>

lemma dot_le_minus1_cross0:
  assumes "dot3 u u = 1" "dot3 w w = 1" "dot3 u w \<le> - 1"
  shows "np_cross u w = (0, 0, 0)"
proof (cases u)
  case u: (fields a b c)
  show ?thesis
  proof (cases w)
    case w: (fields x y z)
    have "(a + x)\<^sup>2 + (b + y)\<^sup>2 + (c + z)\<^sup>2 = dot3 u u + dot3 w w + 2 * dot3 u w"
      using u w by (simp add: power2_eq_square algebra_simps)
    also have "\<dots> \<le> 0" using assms by simp
    finally have le: "(a + x)\<^sup>2 + (b + y)\<^sup>2 + (c + z)\<^sup>2 \<le> 0" .
    have "(a + x)\<^sup>2 = 0 \<and> (b + y)\<^sup>2 = 0 \<and> (c + z)\<^sup>2 = 0"
      using le zero_le_power2[of "a + x"] zero_le_power2[of "b + y"] zero_le_power2[of "c + z"]
      by linarith
    then have "x = - a" "y = - b" "z = - c" by simp_all
    then show ?thesis using u w by simp
  qed
qed

subsection \<open>The two regimes of \<open>calc_dihedral\<close>\<close>

lemma calc_dihedral_finite:
  assumes "nondegenerate p1 p2 p3 p4"
  shows "calc_dihedral p1 p2 p3 p4 =
     Finite ((if phi_sign p1 p2 p3 p4 \<noteq> 0
              then unsigned_phi p1 p2 p3 p4 * phi_sign p1 p2 p3 p4
              else unsigned_phi p1 p2 p3 p4) * 180 / pi)"
  using assms
  unfolding calc_dihedral_def nondegenerate_def unsigned_phi_def phi_sign_def unit_normals_def
  by (simp add: Let_def div_by_norm_nz f_dot_fin f_cross_fin np_sign_sgn
      del: np_sign.simps div_by_norm.simps unit3.simps np_cross.simps vsub.simps)

lemma degenerate_gives_nan:
  assumes "\<not> nondegenerate p1 p2 p3 p4"
  shows "calc_dihedral p1 p2 p3 p4 = NaN"
proof -
  from assms consider
    (l) "np_cross (vsub p2 p1) (vsub p3 p2) = (0, 0, 0)"
  | (r) "np_cross (vsub p3 p2) (vsub p4 p3) = (0, 0, 0)"
    unfolding nondegenerate_def by blast
  then show ?thesis
  proof cases
    case l
    then show ?thesis
      unfolding calc_dihedral_def
      by (simp add: Let_def div_by_norm_zero f_dot_nan_l f_cross_nan_l f_dot_nan_r
          del: div_by_norm.simps np_cross.simps vsub.simps f_dot.simps f_cross.simps)
  next
    case r
    then show ?thesis
      unfolding calc_dihedral_def
      by (simp add: Let_def div_by_norm_zero f_dot_nan_l f_cross_nan_r f_dot_nan_r
          del: div_by_norm.simps np_cross.simps vsub.simps f_dot.simps f_cross.simps)
  qed
qed

lemma calc_dihedral_range:
  assumes "nondegenerate p1 p2 p3 p4"
  shows "\<exists>a. calc_dihedral p1 p2 p3 p4 = Finite a \<and> - 180 < a \<and> a \<le> 180"
proof -
  obtain n1 n2 where n: "unit_normals p1 p2 p3 p4 = (n1, n2)"
    by (cases "unit_normals p1 p2 p3 p4")
  have u1: "dot3 n1 n1 = 1" and u2: "dot3 n2 n2 = 1"
    using assms n unfolding nondegenerate_def unit_normals_def by (auto simp: unit3_norm)
  define d where "d = min (max (dot3 n1 n2) (- 1)) 1"
  define phi where "phi = unsigned_phi p1 p2 p3 p4"
  define s where "s = phi_sign p1 p2 p3 p4"
  have phi: "phi = arccos d" unfolding phi_def unsigned_phi_def d_def n by simp
  have s: "s = sgn (dot3 (vsub p3 p2) (np_cross n1 n2))" unfolding s_def phi_sign_def n by simp
  have d: "- 1 \<le> d" "d \<le> 1" unfolding d_def by simp_all
  have lo: "0 \<le> phi" and hi: "phi \<le> pi"
    using d phi arccos_lbound arccos_ubound by simp_all
  have strict: "phi < pi" if "s \<noteq> 0"
  proof (rule ccontr)
    assume "\<not> phi < pi"
    then have "phi = pi" using hi by simp
    then have "cos (arccos d) = - 1" using phi by simp
    then have "d = - 1" using d by simp
    then have "dot3 n1 n2 \<le> - 1" unfolding d_def by (simp add: min_def max_def split: if_splits)
    then have "np_cross n1 n2 = (0, 0, 0)" using u1 u2 dot_le_minus1_cross0 by blast
    then have "s = 0" using s by (cases "vsub p3 p2") simp
    with that show False by simp
  qed
  have sv: "s = - 1 \<or> s = 0 \<or> s = 1" using s by (simp add: sgn_if)
  let ?a = "(if s \<noteq> 0 then phi * s else phi) * 180 / pi"
  have eq: "calc_dihedral p1 p2 p3 p4 = Finite ?a"
    using calc_dihedral_finite[OF assms] unfolding phi_def s_def .
  have pp: "0 < pi" by simp
  have up: "phi * 180 / pi \<le> 180" using hi pp by (simp add: field_simps)
  have nn: "0 \<le> phi * 180 / pi" using lo pp by simp
  have "- 180 < ?a \<and> ?a \<le> 180"
  proof -
    from sv consider "s = - 1" | "s = 0" | "s = 1" by blast
    then show ?thesis
    proof cases
      case 1
      then have lt: "phi < pi" using strict by simp
      have "?a = - (phi * 180 / pi)" using 1 by simp
      moreover have "phi * 180 / pi < 180" using lt pp by (simp add: field_simps)
      ultimately show ?thesis using nn by linarith
    next
      case 2
      then have "?a = phi * 180 / pi" by simp
      then show ?thesis using up nn by linarith
    next
      case 3
      then have "?a = phi * 180 / pi" by simp
      then show ?thesis using up nn by linarith
    qed
  qed
  with eq show ?thesis by blast
qed

subsection \<open>Reversing the order of the four points\<close>

lemma vneg_eq_0: "vneg v = (0, 0, 0) \<longleftrightarrow> v = (0, 0, 0)"
  by (cases v) simp

lemma cross_rev: "np_cross (vsub c d) (vsub b c) = vneg (np_cross (vsub c b) (vsub d c))"
  by (cases b; cases c; cases d) (simp add: algebra_simps)

lemma nondegenerate_rev: "nondegenerate p4 p3 p2 p1 \<longleftrightarrow> nondegenerate p1 p2 p3 p4"
  unfolding nondegenerate_def
  using cross_rev[of p3 p4 p2] cross_rev[of p2 p3 p1]
  by (auto simp: vneg_eq_0)

lemma unit3_vneg: "unit3 (vneg v) = vneg (unit3 v)"
  by (cases v) simp

lemma unit_normals_rev:
  assumes "unit_normals p1 p2 p3 p4 = (n1, n2)"
  shows "unit_normals p4 p3 p2 p1 = (vneg n2, vneg n1)"
  using assms cross_rev[of p3 p4 p2] cross_rev[of p2 p3 p1]
  unfolding unit_normals_def
  by (simp add: unit3_vneg del: unit3.simps vneg.simps np_cross.simps vsub.simps)

lemma dot3_vneg_swap: "dot3 (vneg a) (vneg b) = dot3 b a"
  by (cases a; cases b) (simp add: algebra_simps)

lemma triple_rev:
  "dot3 (vsub b c) (np_cross (vneg w) (vneg u)) = dot3 (vsub c b) (np_cross u w)"
  by (cases b; cases c; cases u; cases w) (simp add: algebra_simps)

lemma unsigned_phi_rev: "unsigned_phi p4 p3 p2 p1 = unsigned_phi p1 p2 p3 p4"
proof -
  obtain n1 n2 where n: "unit_normals p1 p2 p3 p4 = (n1, n2)"
    by (cases "unit_normals p1 p2 p3 p4")
  show ?thesis
    unfolding unsigned_phi_def n unit_normals_rev[OF n]
    by (simp add: dot3_vneg_swap del: dot3.simps vneg.simps)
qed

lemma phi_sign_rev: "phi_sign p4 p3 p2 p1 = phi_sign p1 p2 p3 p4"
proof -
  obtain n1 n2 where n: "unit_normals p1 p2 p3 p4 = (n1, n2)"
    by (cases "unit_normals p1 p2 p3 p4")
  show ?thesis
    unfolding phi_sign_def n unit_normals_rev[OF n]
    by (simp add: triple_rev del: dot3.simps vneg.simps np_cross.simps vsub.simps)
qed

lemma calc_dihedral_rev: "calc_dihedral p4 p3 p2 p1 = calc_dihedral p1 p2 p3 p4"
proof (cases "nondegenerate p1 p2 p3 p4")
  case True
  then have "nondegenerate p4 p3 p2 p1" by (simp add: nondegenerate_rev)
  then show ?thesis
    using True by (simp add: calc_dihedral_finite unsigned_phi_rev phi_sign_rev)
next
  case False
  then have "\<not> nondegenerate p4 p3 p2 p1" by (simp add: nondegenerate_rev)
  then show ?thesis using False by (simp add: degenerate_gives_nan)
qed

subsection \<open>The normalisation\<close>

lemma np_mod_360_bounds:
  "np_mod (Finite x) 360 = Finite (x - 360 * of_int \<lfloor>x / 360\<rfloor>)
   \<and> 0 \<le> x - 360 * of_int \<lfloor>x / 360\<rfloor> \<and> x - 360 * of_int \<lfloor>x / 360\<rfloor> < 360"
proof -
  have a: "of_int \<lfloor>x / 360\<rfloor> \<le> x / 360" by (rule of_int_floor_le)
  have b: "x / 360 < of_int \<lfloor>x / 360\<rfloor> + 1" by linarith
  from a have "360 * of_int \<lfloor>x / 360\<rfloor> \<le> x" by (simp add: field_simps)
  moreover from b have "x < 360 * of_int \<lfloor>x / 360\<rfloor> + 360" by (simp add: field_simps)
  ultimately show ?thesis by simp
qed

lemma not_lt0_np_mod_360: "\<not> f_lt (np_mod a 360) (Finite 0)"
proof (cases a)
  case (Finite x)
  then show ?thesis using np_mod_360_bounds[of x] by simp
next
  case NaN
  then show ?thesis by simp
qed

lemma normalize_eq_np_mod: "normalize_to_0_360 a = np_mod a 360"
  unfolding normalize_to_0_360_def Let_def using not_lt0_np_mod_360[of a] by simp

section \<open>Properties of the binary64 evaluation\<close>

subsection \<open>Rounding\<close>

lemma rne_bounds: "of_int (rne t) \<le> t + 1 / 2" "t - 1 / 2 \<le> of_int (rne t)"
  unfolding rne_def Let_def by (auto; linarith)+

lemma rne_of_int: "rne (of_int n) = n"
  unfolding rne_def Let_def by simp

lemma rne_ge_floor: "\<lfloor>t\<rfloor> \<le> rne t"
  unfolding rne_def Let_def by auto

lemma rne_le_ceiling: "rne t \<le> \<lceil>t\<rceil>"
  unfolding rne_def Let_def by (auto simp: ceiling_altdef)

lemma rne_nonneg: "0 \<le> t \<Longrightarrow> 0 \<le> rne t"
  using rne_ge_floor[of t] by (simp add: order_trans[of 0 "\<lfloor>t\<rfloor>"])

lemma rne_le_int: "t \<le> of_int n \<Longrightarrow> rne t \<le> n"
  using rne_le_ceiling[of t] by (simp add: ceiling_le order_trans)

lemma rne_unique:
  assumes "\<bar>t - of_int n\<bar> < 1 / 2"
  shows "rne t = n"
proof -
  have "\<bar>of_int (rne t) - of_int n :: real\<bar> < 1"
    using assms rne_bounds[of t] by linarith
  then have "\<bar>rne t - n\<bar> < 1" by (metis of_int_diff of_int_abs of_int_less_1_iff) 
  then show ?thesis by linarith
qed

lemma binade_eq:
  assumes "2 powi e \<le> \<bar>x\<bar>" "\<bar>x\<bar> < 2 powi (e + 1)"
  shows "binade x = e"
proof -
  have pos: "0 < \<bar>x\<bar>" using assms(1) by (smt (verit) zero_less_power_int)
  have "2 powr (of_int e) \<le> \<bar>x\<bar>" "\<bar>x\<bar> < 2 powr (of_int e + 1)"
    using assms powr_real_of_int'[of 2 e] powr_real_of_int'[of 2 "e + 1"] by simp_all
  then show ?thesis
    unfolding binade_def using floor_log_eq_powr_iff[OF pos, of 2 e] by simp
qed

lemma ulp_pos: "0 < ulp x"
  unfolding ulp_def by simp

lemma rd_error: "\<bar>rd x - x\<bar> \<le> ulp x / 2"
proof (cases "x = 0")
  case True
  then show ?thesis using ulp_pos[of x] by (simp add: rd_def)
next
  case False
  have "\<bar>of_int (rne (x / ulp x)) - x / ulp x\<bar> \<le> 1 / 2"
    using rne_bounds[of "x / ulp x"] by linarith
  then have "\<bar>of_int (rne (x / ulp x)) - x / ulp x\<bar> * ulp x \<le> 1 / 2 * ulp x"
    using ulp_pos[of x] by (simp add: mult_right_mono)
  moreover have "\<bar>of_int (rne (x / ulp x)) - x / ulp x\<bar> * ulp x = \<bar>rd x - x\<bar>"
  proof -
    have "(of_int (rne (x / ulp x)) - x / ulp x) * ulp x = rd x - x"
      using ulp_pos[of x] False by (simp add: rd_def left_diff_distrib)
    then have "\<bar>rd x - x\<bar> = \<bar>of_int (rne (x / ulp x)) - x / ulp x\<bar> * \<bar>ulp x\<bar>"
      by (metis abs_mult)
    then show ?thesis using ulp_pos[of x] by simp
  qed
  ultimately show ?thesis by simp
qed

lemma rd_nonneg: "0 \<le> x \<Longrightarrow> 0 \<le> rd x"
  using ulp_pos[of x] rne_nonneg[of "x / ulp x"] by (simp add: rd_def)

lemma rd_at:
  assumes "2 powi e \<le> \<bar>x\<bar>" "\<bar>x\<bar> < 2 powi (e + 1)" "- 1022 \<le> e"
    and "\<bar>x / 2 powi (e - 52) - of_int n\<bar> < 1 / 2"
  shows "rd x = of_int n * 2 powi (e - 52)"
proof -
  have b: "binade x = e" using binade_eq[OF assms(1,2)] .
  have u: "ulp x = 2 powi (e - 52)" unfolding ulp_def b using assms(3) by simp
  have nz: "x \<noteq> 0" using assms(1) by (smt (verit) zero_less_power_int)
  show ?thesis using nz rne_unique[OF assms(4)] by (simp add: rd_def u)
qed

subsection \<open>The modulo\<close>

lemma binade_le_8: assumes "0 < r" "r < 512" shows "binade r \<le> 8"
proof -
  have "log 2 r < 9" using assms by (simp add: log_less_iff)
  then have "\<lfloor>log 2 r\<rfloor> < 9" by (simp add: floor_less_iff)
  then show ?thesis using assms by (simp add: binade_def)
qed


lemma ulp_small:
  assumes "0 < r" "r < 512"
  shows "\<exists>k. 44 \<le> k \<and> ulp r = 1 / 2 ^ k"
proof -
  define e where "e = max (binade r) (- 1022) - 52"
  have le: "e \<le> - 44" using binade_le_8[OF assms] unfolding e_def by simp
  have "ulp r = 2 powi e" by (simp add: ulp_def e_def)
  also have "\<dots> = 1 / 2 ^ nat (- e)"
    using le by (simp add: power_int_def field_simps)
  finally have "ulp r = 1 / 2 ^ nat (- e)" .
  moreover have "44 \<le> nat (- e)" using le by simp
  ultimately show ?thesis by blast
qed

lemma rd_below_360:
  assumes "0 < r" "r < 360"
  shows "0 \<le> rd r" "rd r \<le> 360" "\<bar>rd r - r\<bar> \<le> 1 / 2 ^ 45"
proof -
  from assms obtain k where k: "44 \<le> k" "ulp r = 1 / 2 ^ k"
    using ulp_small[of r] by auto
  show "0 \<le> rd r" using assms rd_nonneg by simp
  have nz: "r \<noteq> 0" using assms by simp
  have "r / ulp r \<le> of_int (360 * 2 ^ k)"
    using assms k(2) by simp
  then have "rne (r / ulp r) \<le> 360 * 2 ^ k" by (rule rne_le_int)
  then have "(of_int (rne (r / ulp r)) :: real) \<le> of_int (360 * 2 ^ k)"
    by (simp only: of_int_le_iff)
  then have "of_int (rne (r / ulp r)) * ulp r \<le> of_int (360 * 2 ^ k) * ulp r"
    using ulp_pos[of r] by (simp add: mult_right_mono)
  then show "rd r \<le> 360" using nz k(2) by (simp add: rd_def)
  have "(2::real) ^ 44 \<le> 2 ^ k" by (rule power_increasing) (use k(1) in simp_all)
  then have "ulp r \<le> 1 / 2 ^ 44" unfolding k(2) by (simp add: field_simps)
  then show "\<bar>rd r - r\<bar> \<le> 1 / 2 ^ 45" using rd_error[of r] by simp
qed

text \<open>\<open>fmod\<close> against 360 and the exact floored remainder.\<close>

lemma c_fmod_360_cases:
  fixes x :: real
  defines "r \<equiv> x - 360 * of_int \<lfloor>x / 360\<rfloor>"
  shows "0 \<le> r \<and> r < 360 \<and>
         (c_fmod x 360 = r \<or> (c_fmod x 360 = r - 360 \<and> 0 < r \<and> x < 0))"
        "0 \<le> x \<Longrightarrow> c_fmod x 360 = r"
proof -
  have a: "of_int \<lfloor>x / 360\<rfloor> \<le> x / 360" by (rule of_int_floor_le)
  have b: "x / 360 < of_int \<lfloor>x / 360\<rfloor> + 1" by linarith
  from a have r0: "0 \<le> r" unfolding r_def by (simp add: field_simps)
  from b have r1: "r < 360" unfolding r_def by (simp add: field_simps)
  show nn: "0 \<le> x \<Longrightarrow> c_fmod x 360 = r"
    by (simp add: c_fmod_def r_def)
  show "0 \<le> r \<and> r < 360 \<and>
         (c_fmod x 360 = r \<or> (c_fmod x 360 = r - 360 \<and> 0 < r \<and> x < 0))"
  proof (cases "0 \<le> x")
    case True
    then show ?thesis using nn r0 r1 by simp
  next
    case neg: False
    show ?thesis
    proof (cases "x / 360 \<in> \<int>")
      case True
      then have "\<lceil>x / 360\<rceil> = \<lfloor>x / 360\<rfloor>"
        by (metis Ints_cases ceiling_of_int floor_of_int)
      then have "c_fmod x 360 = r" using neg by (simp add: c_fmod_def r_def)
      then show ?thesis using r0 r1 by simp
    next
      case False
      then have "x / 360 \<noteq> of_int \<lfloor>x / 360\<rfloor>"
        by (metis Ints_of_int)
      then have c: "\<lceil>x / 360\<rceil> = \<lfloor>x / 360\<rfloor> + 1"
        by (simp only: ceiling_altdef if_False)
      have "c_fmod x 360 = r - 360" using neg c by (simp add: c_fmod_def r_def)
      moreover have "r \<noteq> 0"
      proof
        assume "r = 0"
        then have "x / 360 = of_int \<lfloor>x / 360\<rfloor>" unfolding r_def by simp
        then have "x / 360 \<in> \<int>" by (metis Ints_of_int)
        with False show False by simp
      qed
      ultimately show ?thesis using r0 r1 neg by simp
    qed
  qed
qed

lemma np_remainder_360:
  fixes x :: real
  defines "r \<equiv> x - 360 * of_int \<lfloor>x / 360\<rfloor>"
  shows "np_remainder (Finite x) 360 = Finite r
         \<or> (np_remainder (Finite x) 360 = Finite (rd r) \<and> 0 < r \<and> r < 360 \<and> x < 0)"
  using c_fmod_360_cases(1)[of x] unfolding r_def
  by (auto simp: Let_def)

lemma np_remainder_360_bounds:
  fixes x :: real
  defines "r \<equiv> x - 360 * of_int \<lfloor>x / 360\<rfloor>"
  shows "\<exists>y. np_remainder (Finite x) 360 = Finite y \<and> 0 \<le> y \<and> y \<le> 360
             \<and> \<bar>y - r\<bar> \<le> 1 / 2 ^ 45 \<and> (0 \<le> x \<longrightarrow> y = r \<and> y < 360)"
proof -
  have rr: "0 \<le> r" "r < 360" using c_fmod_360_cases(1)[of x] unfolding r_def by simp_all
  from np_remainder_360[of x] consider
    (exact) "np_remainder (Finite x) 360 = Finite r"
  | (rounded) "np_remainder (Finite x) 360 = Finite (rd r)" "0 < r" "r < 360" "x < 0"
    unfolding r_def by blast
  then show ?thesis
  proof cases
    case exact
    then show ?thesis using rr by simp
  next
    case rounded
    then show ?thesis using rd_below_360[of r] by simp
  qed
qed

lemma not_lt0_np_remainder: "\<not> f_lt (np_remainder a 360) (Finite 0)"
proof (cases a)
  case (Finite x)
  then show ?thesis using np_remainder_360_bounds[of x] by auto
next
  case NaN
  then show ?thesis by simp
qed

lemma normalize_b64_eq: "normalize_to_0_360_b64 a = np_remainder a 360"
  unfolding normalize_to_0_360_b64_def Let_def using not_lt0_np_remainder[of a] by simp

lemma c_fmod_tiny_neg: "- 360 < x \<Longrightarrow> x < 0 \<Longrightarrow> c_fmod x 360 = x"
proof -
  assume a: "- 360 < x" "x < 0"
  then have "\<lceil>x / 360\<rceil> = 0" by (simp add: ceiling_eq_iff)
  then show ?thesis using a by (simp add: c_fmod_def)
qed

lemma rd_360_minus_70: "rd (360 - 1 / 2 ^ 70) = 360"
  using rd_at[of 8 "360 - 1 / 2 ^ 70" "360 * 2 ^ 44"]
  by (simp add: power_int_minus field_simps)

lemma rd_360_minus_60: "rd (360 - 1 / 2 ^ 60) = 360"
  using rd_at[of 8 "360 - 1 / 2 ^ 60" "360 * 2 ^ 44"]
  by (simp add: power_int_minus field_simps)

subsection \<open>Roundings used by the near-trans example\<close>








section \<open>Properties of the driver\<close>

lemma np_row_cases:
  "np_row p i =
     (if - int (length p) \<le> i \<and> i < int (length p)
      then Inr (p ! nat (if i < 0 then int (length p) + i else i))
      else Inl IndexError)"
  unfolding np_row_def Let_def by auto

lemma dihedral_of_Inl:
  "dihedral_of a (i, j, k, l) = Inl e \<longleftrightarrow>
     e = IndexError \<and> \<not> (row_exists a i \<and> row_exists a j \<and> row_exists a k \<and> row_exists a l)"
  unfolding row_exists_def dihedral_of.simps Let_def get_positions_def np_row_cases
  by (simp split: if_splits) blast

lemma dihedral_constraint_Some:
  "dihedral_indices ar = Some idx \<Longrightarrow> dihedral_angle ar = Some t \<Longrightarrow>
     dihedral_constraint a ar = Inr [(t, dihedral_indices_0based idx)]"
  by (simp add: dihedral_constraint_def target_angle_def)

lemma dihedral_constraint_None:
  "dihedral_indices ar = Some idx \<Longrightarrow> dihedral_angle ar = None \<Longrightarrow>
     dihedral_constraint a ar =
       (case dihedral_of a (dihedral_indices_0based idx) of
          Inl e \<Rightarrow> Inl e | Inr c \<Rightarrow> Inr [(c, dihedral_indices_0based idx)])"
  by (simp add: dihedral_constraint_def target_angle_def)

lemma dihedral_constraint_empty_iff:
  "dihedral_constraint a ar = Inr [] \<longleftrightarrow> dihedral_indices ar = None"
  by (auto simp: dihedral_constraint_def split: option.splits sum.splits)

lemma actual_angle_deg_Some:
  "dihedral_indices ar = Some idx \<Longrightarrow>
     actual_angle_deg fa ar =
       (case dihedral_of fa (dihedral_indices_0based idx) of
          Inl e \<Rightarrow> Inl e | Inr d \<Rightarrow> Inr (Some (normalize_to_0_360 d)))"
  by (simp add: actual_angle_deg_def)

lemma normalize_finite_range:
  "\<exists>y. normalize_to_0_360 (Finite x) = Finite y \<and> 0 \<le> y \<and> y < 360"
  using np_mod_360_bounds[of x] by (simp add: normalize_eq_np_mod)

lemma load_atoms_relax: "load_atoms (ev\<lparr>relax := r\<rparr>) ar = load_atoms ev ar"
  by (simp add: load_atoms_def)

text \<open>An error while the constraint is set up is the result of the whole run.\<close>

lemma main_setup_error:
  "dihedral_constraint (load_atoms ev ar) ar = Inl e \<Longrightarrow> main ev ar = Inl e"
  by (simp add: main_def Let_def)

text \<open>A run that completes went through each stage successfully.\<close>

lemma main_Inr:
  assumes "main ev ar = Inr out"
  shows "\<exists>cons r actual c.
           dihedral_constraint (load_atoms ev ar) ar = Inr cons
         \<and> relax ev (load_atoms ev ar) cons = Inr r
         \<and> actual_angle_deg (final_atoms r) ar = Inr actual
         \<and> comment ev ar actual (final_energy r) = Inr c
         \<and> file_lines out =
             str_int (int (length (rows (final_atoms r)))) # c
             # map (atom_line ev) (rows (final_atoms r))"
  using assms unfolding main_def Let_def
  by (auto split: sum.splits)

text \<open>The whole run when no indices are given.\<close>

lemma main_unconstrained:
  assumes "dihedral_indices ar = None"
  shows "main ev ar =
     (case relax ev (load_atoms ev ar) [] of
        Inl e \<Rightarrow> Inl e
      | Inr r \<Rightarrow>
          Inr \<lparr>stdout =
                 [''Running '' @ script_file ev @ '' version 0.14'', replicate 60 CHR ''-'',
                  ''No dihedral constraint applied. Performing unconstrained optimization.'',
                  ''Starting geometry optimization...'']
                 @ log_lines r
                 @ [''Optimization finished.'',
                    ''Final energy: '' @ fmt_f ev 6 (final_energy r) @ '' eV'',
                    ''Optimized structure saved to '' @ output_file ar
                      @ '' with comment: '' @ ''energy='' @ fmt_f ev 6 (final_energy r)
                      @ '' eV charge='' @ str_float ev (charge ar)
                      @ '' spin='' @ str_float ev (spin ar)],
               file_name = output_file ar,
               file_lines =
                 str_int (int (length (rows (final_atoms r))))
                 # (''energy='' @ fmt_f ev 6 (final_energy r)
                      @ '' eV charge='' @ str_float ev (charge ar)
                      @ '' spin='' @ str_float ev (spin ar))
                 # map (atom_line ev) (rows (final_atoms r))\<rparr>)"
  using assms
  by (simp add: main_def Let_def dihedral_constraint_def actual_angle_deg_def
      comment_def setup_lines_def split: sum.splits)

text \<open>A run whose stages all succeed completes.\<close>

lemma main_ok:
  assumes "dihedral_constraint (load_atoms ev ar) ar = Inr cons"
    and "relax ev (load_atoms ev ar) cons = Inr r"
    and "actual_angle_deg (final_atoms r) ar = Inr actual"
    and "comment ev ar actual (final_energy r) = Inr c"
  shows "\<exists>out. main ev ar = Inr out"
  using assms by (simp add: main_def Let_def)

lemma ev_simps:
  "ase_read (stub_env a) f = a" "fmt_f (stub_env a) n x = ''F''" "str_float (stub_env a) x = ''S''"
  "relax (stub_env a) b cons = Inr \<lparr>final_atoms = b, final_energy = Finite (- 1), log_lines = []\<rparr>"
  "script_file (stub_env a) = ''opt.py''"
  by (simp_all add: stub_env_def)

lemma main_Inr_full:
  assumes "main ev ar = Inr out"
  shows "\<exists>cons r actual c.
           dihedral_constraint (load_atoms ev ar) ar = Inr cons
         \<and> relax ev (load_atoms ev ar) cons = Inr r
         \<and> actual_angle_deg (final_atoms r) ar = Inr actual
         \<and> comment ev ar actual (final_energy r) = Inr c
         \<and> file_lines out ! 1 = c
         \<and> set (setup_lines ev (load_atoms ev ar) ar) \<subseteq> set (stdout out)
         \<and> (\<forall>v. actual = Some v \<longrightarrow>
               ''Actual dihedral angle: '' @ fmt_f ev 2 v @ degree_sign \<in> set (stdout out))"
  using assms unfolding main_def Let_def
  by (auto split: sum.splits)

text \<open>A constrained run that completes, stage by stage.\<close>

lemma main_constrained:
  assumes m: "main ev ar = Inr out" and idx: "dihedral_indices ar = Some (i, j, k, l)"
  shows "\<exists>t r d.
           target_angle (load_atoms ev ar) ar (i - 1, j - 1, k - 1, l - 1) = Inr t
         \<and> relax ev (load_atoms ev ar) [(t, (i - 1, j - 1, k - 1, l - 1))] = Inr r
         \<and> dihedral_of (final_atoms r) (i - 1, j - 1, k - 1, l - 1) = Inr d
         \<and> file_lines out ! 1 =
               ''dihedral='' @ str_int i @ ''-'' @ str_int j @ ''-'' @ str_int k
               @ ''-'' @ str_int l
               @ '' actual_angle='' @ fmt_f ev 2 (normalize_to_0_360 d)
               @ '' energy='' @ fmt_f ev 6 (final_energy r)
               @ '' eV charge='' @ str_float ev (charge ar)
               @ '' spin='' @ str_float ev (spin ar)
               @ '' constraint_source='' @ angle_source ar
         \<and> set (setup_lines ev (load_atoms ev ar) ar) \<subseteq> set (stdout out)
         \<and> ''Actual dihedral angle: '' @ fmt_f ev 2 (normalize_to_0_360 d) @ degree_sign
               \<in> set (stdout out)"
proof -
  from main_Inr_full[OF m] obtain cons r actual c where
    a: "dihedral_constraint (load_atoms ev ar) ar = Inr cons"
       "relax ev (load_atoms ev ar) cons = Inr r"
       "actual_angle_deg (final_atoms r) ar = Inr actual"
       "comment ev ar actual (final_energy r) = Inr c"
       "file_lines out ! 1 = c"
       "set (setup_lines ev (load_atoms ev ar) ar) \<subseteq> set (stdout out)"
       "\<forall>v. actual = Some v \<longrightarrow>
               ''Actual dihedral angle: '' @ fmt_f ev 2 v @ degree_sign \<in> set (stdout out)"
    by blast
  from a(1) idx obtain t where
    t: "target_angle (load_atoms ev ar) ar (i - 1, j - 1, k - 1, l - 1) = Inr t"
       "cons = [(t, (i - 1, j - 1, k - 1, l - 1))]"
    unfolding dihedral_constraint_def by (auto split: sum.splits)
  from a(3) obtain d where
    d: "dihedral_of (final_atoms r) (i - 1, j - 1, k - 1, l - 1) = Inr d"
       "actual = Some (normalize_to_0_360 d)"
    unfolding actual_angle_deg_Some[OF idx] by (auto split: sum.splits)
  have c: "c = ''dihedral='' @ str_int i @ ''-'' @ str_int j @ ''-'' @ str_int k
               @ ''-'' @ str_int l
               @ '' actual_angle='' @ fmt_f ev 2 (normalize_to_0_360 d)
               @ '' energy='' @ fmt_f ev 6 (final_energy r)
               @ '' eV charge='' @ str_float ev (charge ar)
               @ '' spin='' @ str_float ev (spin ar)
               @ '' constraint_source='' @ angle_source ar"
    using a(4) idx d(2) by (simp add: comment_def)
  show ?thesis
  proof (rule exI[of _ t], rule exI[of _ r], rule exI[of _ d], intro conjI)
    show "target_angle (load_atoms ev ar) ar (i - 1, j - 1, k - 1, l - 1) = Inr t" by (fact t(1))
    show "relax ev (load_atoms ev ar) [(t, (i - 1, j - 1, k - 1, l - 1))] = Inr r"
      using a(2) unfolding t(2) .
    show "dihedral_of (final_atoms r) (i - 1, j - 1, k - 1, l - 1) = Inr d" by (fact d(1))
    show "file_lines out ! 1 =
               ''dihedral='' @ str_int i @ ''-'' @ str_int j @ ''-'' @ str_int k
               @ ''-'' @ str_int l
               @ '' actual_angle='' @ fmt_f ev 2 (normalize_to_0_360 d)
               @ '' energy='' @ fmt_f ev 6 (final_energy r)
               @ '' eV charge='' @ str_float ev (charge ar)
               @ '' spin='' @ str_float ev (spin ar)
               @ '' constraint_source='' @ angle_source ar"
      unfolding a(5) by (fact c)
    show "set (setup_lines ev (load_atoms ev ar) ar) \<subseteq> set (stdout out)" by (fact a(6))
    show "''Actual dihedral angle: '' @ fmt_f ev 2 (normalize_to_0_360 d) @ degree_sign
               \<in> set (stdout out)"
      using a(7) d(2) by blast
  qed
qed


lemma setup_lines_current:
  assumes "dihedral_indices ar = Some idx" "dihedral_angle ar = None"
    and "target_angle a ar (dihedral_indices_0based idx) = Inr t"
  shows "''--dihedral_angle not specified. Using current dihedral angle: ''
           @ fmt_f ev 2 t @ degree_sign \<in> set (setup_lines ev a ar)"
  using assms by (simp add: setup_lines_def)

lemma setup_lines_user:
  assumes "dihedral_indices ar = Some idx" "dihedral_angle ar = Some t"
  shows "''Using user-specified target dihedral angle: ''
           @ fmt_f ev 2 t @ degree_sign \<in> set (setup_lines ev a ar)"
  using assms by (simp add: setup_lines_def target_angle_def)

lemma dihedral_of_rows:
  assumes "dihedral_of a (i, j, k, l) = Inr t"
  shows "\<exists>q1 q2 q3 q4.
           np_row (get_positions a) i = Inr q1 \<and> np_row (get_positions a) j = Inr q2
         \<and> np_row (get_positions a) k = Inr q3 \<and> np_row (get_positions a) l = Inr q4
         \<and> t = calc_dihedral q1 q2 q3 q4"
  using assms unfolding dihedral_of.simps Let_def by (auto split: sum.splits)

lemma strict_env_simps:
  "ase_read (strict_env a e) f = a" "fmt_f (strict_env a e) n x = ''F''"
  "str_float (strict_env a e) x = ''S''"
  "relax (strict_env a e) b cons =
     (if cons = e then Inr \<lparr>final_atoms = b, final_energy = Finite (- 1), log_lines = []\<rparr>
      else Inl LibraryError)"
  by (simp_all add: strict_env_def stub_env_def)

lemma dihedral_of_chain_plus90: "rows b = rows chain_plus90 \<Longrightarrow> dihedral_of b (0, 1, 2, 3) = Inr (Finite 90)"
  by (simp add: dihedral_of.simps get_positions_def np_row_def chain_plus90_def
      calc_dihedral_def Let_def)

lemma dihedral_of_chain_minus90: "rows b = rows chain_minus90 \<Longrightarrow> dihedral_of b (0, 1, 2, 3) = Inr (Finite (- 90))"
  by (simp add: dihedral_of.simps get_positions_def np_row_def chain_minus90_def
      calc_dihedral_def Let_def)

section \<open>The properties stated by the specification\<close>

text \<open>
  C1, as the specification states it: four points of which three consecutive ones are
  collinear make the dihedral calculation fail with a DegenerateGeometryError instead of
  returning NaN. The function has no such check. With the first three points on one
  line it returns \<open>NaN\<close>, and a run that freezes the current angle of such a structure
  reaches the constraint list with \<open>NaN\<close> as its target and no error.
\<close>

theorem calc_dihedral_collinear_returns_nan:
  "calc_dihedral (0, 0, 0) (1, 0, 0) (2, 0, 0) (3, 1, 0) = NaN
   \<and> dihedral_constraint
       \<lparr>rows = [(''H'', (0, 0, 0)), (''C'', (1, 0, 0)), (''C'', (2, 0, 0)), (''H'', (3, 1, 0))],
        cell = [], pbc = [], info_charge = Some (Finite 0), info_spin = Some (Finite 1)\<rparr>
       \<lparr>input_file = ''in.xyz'', output_file = ''out.xyz'', charge = Finite 0, spin = Finite 1,
        dihedral_indices = Some (1, 2, 3, 4), dihedral_angle = None\<rparr>
     = Inr [(NaN, (0, 1, 2, 3))]"
  by (simp add: calc_dihedral_def Let_def dihedral_constraint_def target_angle_def
      dihedral_of.simps get_positions_def np_row_def)

text \<open>
  C1, amended: whenever one of the two plane normals \<open>b1 \<times> b2\<close>, \<open>b2 \<times> b3\<close> is exactly
  the zero vector, \<open>calc_dihedral\<close> raises nothing and returns \<open>NaN\<close>.
\<close>

theorem calc_dihedral_degenerate_nan:
  assumes "np_cross (vsub p2 p1) (vsub p3 p2) = (0, 0, 0)
           \<or> np_cross (vsub p3 p2) (vsub p4 p3) = (0, 0, 0)"
  shows "calc_dihedral p1 p2 p3 p4 = NaN"
  using assms degenerate_gives_nan[of p1 p2 p3 p4] unfolding nondegenerate_def by blast

theorem calc_dihedral_degenerate_nan_witness:
  "(np_cross (vsub (0, 0, 1) (0, 0, 0)) (vsub (0, 1, 1) (0, 0, 1)) = (0, 0, 0)
    \<or> np_cross (vsub (0, 1, 1) (0, 0, 1)) (vsub (0, 3, 1) (0, 1, 1)) = (0, 0, 0))
   \<and> calc_dihedral (0, 0, 0) (0, 0, 1) (0, 1, 1) (0, 3, 1) = NaN"
proof -
  have h: "np_cross (vsub (0, 0, 1) (0, 0, 0)) (vsub (0, 1, 1) (0, 0, 1)) = (0, 0, 0)
    \<or> np_cross (vsub (0, 1, 1) (0, 0, 1)) (vsub (0, 3, 1) (0, 1, 1)) = ((0, 0, 0) :: vec3)"
    by simp
  show ?thesis using h calc_dihedral_degenerate_nan[OF h] by blast
qed

text \<open>
  C2, as the specification states it: indices that are out of bounds or not pairwise
  distinct raise InvalidIndexError when the constraint is built. Nothing in the script
  validates them. On a four-atom structure the indices \<open>1 1 2 9\<close> with a target angle
  reach the constraint list as they are; \<open>1 1 3 4\<close> without a target give the target
  \<open>NaN\<close>; and the index \<open>0\<close> becomes \<open>-1\<close>, which numpy reads as the last atom.
\<close>

theorem dihedral_constraint_accepts_bad_indices:
  "dihedral_constraint chain_plus90 (cli (Some (1, 1, 2, 9)) (Some (Finite 90)))
     = Inr [(Finite 90, (0, 0, 1, 8))]
   \<and> dihedral_constraint chain_plus90 (cli (Some (1, 1, 3, 4)) None)
     = Inr [(NaN, (0, 0, 2, 3))]
   \<and> dihedral_constraint chain_plus90 (cli (Some (0, 2, 3, 4)) None)
     = Inr [(Finite 0, (- 1, 1, 2, 3))]"
  by (simp add: dihedral_constraint_def target_angle_def dihedral_of.simps get_positions_def
      np_row_def Let_def calc_dihedral_def chain_plus90_def cli_def)

text \<open>
  C2, amended: the four indices are not validated and no InvalidIndexError exists. When
  no target angle is supplied, the run fails with numpy's IndexError, before the
  optimiser is called, exactly when one of the indices minus one lies outside
  \<open>[-n, n)\<close> for a structure of \<open>n\<close> atoms; indices that are equal to one another, or
  zero or negative within that range, are accepted. When a target angle is supplied,
  building the constraint never fails.
\<close>

theorem dihedral_constraint_index_errors:
  assumes "dihedral_indices ar = Some (i, j, k, l)"
  shows "((\<exists>e. dihedral_constraint a ar = Inl e) \<longleftrightarrow>
            dihedral_angle ar = None \<and>
            \<not> (row_exists a (i - 1) \<and> row_exists a (j - 1)
               \<and> row_exists a (k - 1) \<and> row_exists a (l - 1)))
       \<and> (\<forall>e. dihedral_constraint a ar = Inl e \<longrightarrow> e = IndexError)
       \<and> (\<forall>e r. dihedral_constraint (load_atoms ev ar) ar = Inl e
              \<longrightarrow> main (ev\<lparr>relax := r\<rparr>) ar = Inl e)"
proof (cases "dihedral_angle ar")
  case None
  have c: "dihedral_constraint b ar =
       (case dihedral_of b (i - 1, j - 1, k - 1, l - 1) of
          Inl e \<Rightarrow> Inl e | Inr c \<Rightarrow> Inr [(c, (i - 1, j - 1, k - 1, l - 1))])" for b
    using dihedral_constraint_None[OF assms None, of b] by (simp cong: sum.case_cong)
  have "(\<exists>e. dihedral_constraint a ar = Inl e) \<longleftrightarrow>
          (\<exists>e. dihedral_of a (i - 1, j - 1, k - 1, l - 1) = Inl e)"
    unfolding c by (auto split: sum.splits)
  moreover have "dihedral_constraint a ar = Inl e \<Longrightarrow> e = IndexError" for e
    unfolding c using dihedral_of_Inl by (auto split: sum.splits)
  moreover have "main (ev\<lparr>relax := r\<rparr>) ar = Inl e"
    if "dihedral_constraint (load_atoms ev ar) ar = Inl e" for e r
    using that main_setup_error[of "ev\<lparr>relax := r\<rparr>" ar e] by (simp add: load_atoms_relax)
  ultimately show ?thesis using None dihedral_of_Inl by blast
next
  case (Some t)
  then show ?thesis using dihedral_constraint_Some[OF assms Some]
    by (auto simp: main_setup_error)
qed

theorem dihedral_constraint_index_errors_witness:
  "dihedral_indices (cli (Some (1, 2, 3, 9)) None) = Some (1, 2, 3, 9)
   \<and> dihedral_constraint chain_plus90 (cli (Some (1, 2, 3, 9)) None) = Inl IndexError
   \<and> main ((stub_env chain_plus90)\<lparr>relax := (\<lambda>b cons. Inl LibraryError)\<rparr>)
        (cli (Some (1, 2, 3, 9)) None) = Inl IndexError"
proof -
  let ?ar = "cli (Some (1, 2, 3, 9)) None"
  have h: "dihedral_indices ?ar = Some (1, 2, 3, 9)" by (simp add: cli_def)
  have n: "dihedral_angle ?ar = None" by (simp add: cli_def)
  have r: "\<not> row_exists chain_plus90 (9 - 1)" by (simp add: row_exists_def chain_plus90_def)
  have l: "load_atoms (stub_env chain_plus90) ?ar
             = chain_plus90\<lparr>info_charge := Some (Finite 0), info_spin := Some (Finite 1)\<rparr>"
    by (simp add: load_atoms_def ev_simps cli_def)
  note t = dihedral_constraint_index_errors[OF h]
  from t[of chain_plus90 "stub_env chain_plus90"] n r
  have 1: "dihedral_constraint chain_plus90 ?ar = Inl IndexError" by blast
  have r': "\<not> row_exists (load_atoms (stub_env chain_plus90) ?ar) (9 - 1)"
    unfolding l by (simp add: row_exists_def chain_plus90_def)
  from t[of "load_atoms (stub_env chain_plus90) ?ar" "stub_env chain_plus90"] n r'
  have 2: "main ((stub_env chain_plus90)\<lparr>relax := (\<lambda>b cons. Inl LibraryError)\<rparr>) ?ar
             = Inl IndexError" by blast
  show ?thesis using h 1 2 by blast
qed




text \<open>
  C4: in every run that completes with indices and no target angle, the optimiser is
  called with the constraint whose target is \<open>calc_dihedral\<close> of the four rows of the
  structure as read from the input file, that angle is the one printed as the current
  angle, and the comment line ends in \<open>constraint_source=fixed_current\<close>; with a target
  angle the optimiser is called with that angle and the comment line ends in
  \<open>constraint_source=user_specified\<close>.
\<close>

theorem target_angle_and_source:
  assumes "main ev ar = Inr out" and "dihedral_indices ar = Some (i, j, k, l)"
  shows "(dihedral_angle ar = None \<longrightarrow>
           (\<exists>q1 q2 q3 q4 r d.
               np_row (get_positions (ase_read ev (input_file ar))) (i - 1) = Inr q1
             \<and> np_row (get_positions (ase_read ev (input_file ar))) (j - 1) = Inr q2
             \<and> np_row (get_positions (ase_read ev (input_file ar))) (k - 1) = Inr q3
             \<and> np_row (get_positions (ase_read ev (input_file ar))) (l - 1) = Inr q4
             \<and> relax ev (load_atoms ev ar)
                  [(calc_dihedral q1 q2 q3 q4, (i - 1, j - 1, k - 1, l - 1))] = Inr r
             \<and> dihedral_of (final_atoms r) (i - 1, j - 1, k - 1, l - 1) = Inr d
             \<and> file_lines out ! 1 =
                 ''dihedral='' @ str_int i @ ''-'' @ str_int j @ ''-'' @ str_int k
                 @ ''-'' @ str_int l
                 @ '' actual_angle='' @ fmt_f ev 2 (normalize_to_0_360 d)
                 @ '' energy='' @ fmt_f ev 6 (final_energy r)
                 @ '' eV charge='' @ str_float ev (charge ar)
                 @ '' spin='' @ str_float ev (spin ar)
                 @ '' constraint_source=fixed_current''
             \<and> ''--dihedral_angle not specified. Using current dihedral angle: ''
                  @ fmt_f ev 2 (calc_dihedral q1 q2 q3 q4) @ degree_sign \<in> set (stdout out)))
       \<and> (\<forall>t. dihedral_angle ar = Some t \<longrightarrow>
           (\<exists>r d.
               relax ev (load_atoms ev ar) [(t, (i - 1, j - 1, k - 1, l - 1))] = Inr r
             \<and> dihedral_of (final_atoms r) (i - 1, j - 1, k - 1, l - 1) = Inr d
             \<and> file_lines out ! 1 =
                 ''dihedral='' @ str_int i @ ''-'' @ str_int j @ ''-'' @ str_int k
                 @ ''-'' @ str_int l
                 @ '' actual_angle='' @ fmt_f ev 2 (normalize_to_0_360 d)
                 @ '' energy='' @ fmt_f ev 6 (final_energy r)
                 @ '' eV charge='' @ str_float ev (charge ar)
                 @ '' spin='' @ str_float ev (spin ar)
                 @ '' constraint_source=user_specified''))"
proof -
  from main_constrained[OF assms] obtain t r d where
    s: "target_angle (load_atoms ev ar) ar (i - 1, j - 1, k - 1, l - 1) = Inr t"
       "relax ev (load_atoms ev ar) [(t, (i - 1, j - 1, k - 1, l - 1))] = Inr r"
       "dihedral_of (final_atoms r) (i - 1, j - 1, k - 1, l - 1) = Inr d"
       "file_lines out ! 1 =
                 ''dihedral='' @ str_int i @ ''-'' @ str_int j @ ''-'' @ str_int k
                 @ ''-'' @ str_int l
                 @ '' actual_angle='' @ fmt_f ev 2 (normalize_to_0_360 d)
                 @ '' energy='' @ fmt_f ev 6 (final_energy r)
                 @ '' eV charge='' @ str_float ev (charge ar)
                 @ '' spin='' @ str_float ev (spin ar)
                 @ '' constraint_source='' @ angle_source ar"
       "set (setup_lines ev (load_atoms ev ar) ar) \<subseteq> set (stdout out)"
    by blast
  have p: "get_positions (load_atoms ev ar) = get_positions (ase_read ev (input_file ar))"
    by (simp add: get_positions_def load_atoms_def)
  show ?thesis
  proof (intro conjI impI allI)
    assume n: "dihedral_angle ar = None"
    then have "dihedral_of (load_atoms ev ar) (i - 1, j - 1, k - 1, l - 1) = Inr t"
      using s(1) by (simp add: target_angle_def)
    from dihedral_of_rows[OF this] obtain q1 q2 q3 q4 where
      q: "np_row (get_positions (ase_read ev (input_file ar))) (i - 1) = Inr q1"
         "np_row (get_positions (ase_read ev (input_file ar))) (j - 1) = Inr q2"
         "np_row (get_positions (ase_read ev (input_file ar))) (k - 1) = Inr q3"
         "np_row (get_positions (ase_read ev (input_file ar))) (l - 1) = Inr q4"
         "t = calc_dihedral q1 q2 q3 q4"
      unfolding p by blast
    have src: "angle_source ar = ''fixed_current''" using n by (simp add: angle_source_def)
    have pr: "''--dihedral_angle not specified. Using current dihedral angle: ''
                  @ fmt_f ev 2 t @ degree_sign \<in> set (stdout out)"
      using setup_lines_current[OF assms(2) n, of "load_atoms ev ar" t ev] s(1) s(5) by auto
    show "\<exists>q1 q2 q3 q4 r d.
               np_row (get_positions (ase_read ev (input_file ar))) (i - 1) = Inr q1
             \<and> np_row (get_positions (ase_read ev (input_file ar))) (j - 1) = Inr q2
             \<and> np_row (get_positions (ase_read ev (input_file ar))) (k - 1) = Inr q3
             \<and> np_row (get_positions (ase_read ev (input_file ar))) (l - 1) = Inr q4
             \<and> relax ev (load_atoms ev ar)
                  [(calc_dihedral q1 q2 q3 q4, (i - 1, j - 1, k - 1, l - 1))] = Inr r
             \<and> dihedral_of (final_atoms r) (i - 1, j - 1, k - 1, l - 1) = Inr d
             \<and> file_lines out ! 1 =
                 ''dihedral='' @ str_int i @ ''-'' @ str_int j @ ''-'' @ str_int k
                 @ ''-'' @ str_int l
                 @ '' actual_angle='' @ fmt_f ev 2 (normalize_to_0_360 d)
                 @ '' energy='' @ fmt_f ev 6 (final_energy r)
                 @ '' eV charge='' @ str_float ev (charge ar)
                 @ '' spin='' @ str_float ev (spin ar)
                 @ '' constraint_source=fixed_current''
             \<and> ''--dihedral_angle not specified. Using current dihedral angle: ''
                  @ fmt_f ev 2 (calc_dihedral q1 q2 q3 q4) @ degree_sign \<in> set (stdout out)"
    proof -
      have rl: "relax ev (load_atoms ev ar)
                  [(calc_dihedral q1 q2 q3 q4, (i - 1, j - 1, k - 1, l - 1))] = Inr r"
        using s(2) unfolding q(5) .
      have ln: "file_lines out ! 1 =
                 ''dihedral='' @ str_int i @ ''-'' @ str_int j @ ''-'' @ str_int k
                 @ ''-'' @ str_int l
                 @ '' actual_angle='' @ fmt_f ev 2 (normalize_to_0_360 d)
                 @ '' energy='' @ fmt_f ev 6 (final_energy r)
                 @ '' eV charge='' @ str_float ev (charge ar)
                 @ '' spin='' @ str_float ev (spin ar)
                 @ '' constraint_source=fixed_current''"
        using s(4) src by simp
      have pq: "''--dihedral_angle not specified. Using current dihedral angle: ''
                  @ fmt_f ev 2 (calc_dihedral q1 q2 q3 q4) @ degree_sign \<in> set (stdout out)"
        using pr unfolding q(5) .
      show ?thesis
        by (rule exI[of _ q1], rule exI[of _ q2], rule exI[of _ q3], rule exI[of _ q4],
            rule exI[of _ r], rule exI[of _ d], (intro conjI; fact q(1-4) rl s(3) ln pq))
    qed
  next
    fix t'
    assume u: "dihedral_angle ar = Some t'"
    then have tt: "t = t'" using s(1) by (simp add: target_angle_def)
    have src: "angle_source ar = ''user_specified''" using u by (simp add: angle_source_def)
    show "\<exists>r d.
               relax ev (load_atoms ev ar) [(t', (i - 1, j - 1, k - 1, l - 1))] = Inr r
             \<and> dihedral_of (final_atoms r) (i - 1, j - 1, k - 1, l - 1) = Inr d
             \<and> file_lines out ! 1 =
                 ''dihedral='' @ str_int i @ ''-'' @ str_int j @ ''-'' @ str_int k
                 @ ''-'' @ str_int l
                 @ '' actual_angle='' @ fmt_f ev 2 (normalize_to_0_360 d)
                 @ '' energy='' @ fmt_f ev 6 (final_energy r)
                 @ '' eV charge='' @ str_float ev (charge ar)
                 @ '' spin='' @ str_float ev (spin ar)
                 @ '' constraint_source=user_specified''"
    proof -
      have rl: "relax ev (load_atoms ev ar) [(t', (i - 1, j - 1, k - 1, l - 1))] = Inr r"
        using s(2) unfolding tt .
      have ln: "file_lines out ! 1 =
                 ''dihedral='' @ str_int i @ ''-'' @ str_int j @ ''-'' @ str_int k
                 @ ''-'' @ str_int l
                 @ '' actual_angle='' @ fmt_f ev 2 (normalize_to_0_360 d)
                 @ '' energy='' @ fmt_f ev 6 (final_energy r)
                 @ '' eV charge='' @ str_float ev (charge ar)
                 @ '' spin='' @ str_float ev (spin ar)
                 @ '' constraint_source=user_specified''"
        using s(4) src by simp
      show ?thesis
        by (rule exI[of _ r], rule exI[of _ d], (intro conjI; fact rl s(3) ln))
    qed
  qed
qed

theorem target_angle_and_source_witness:
  "\<exists>out. main (strict_env chain_plus90 [(Finite 90, (0, 1, 2, 3))]) (cli (Some (1, 2, 3, 4)) None)
           = Inr out
       \<and> file_lines out ! 1 =
           ''dihedral=1-2-3-4 actual_angle=F energy=F eV charge=S spin=S constraint_source=fixed_current''"
proof -
  let ?ar = "cli (Some (1, 2, 3, 4)) None"
  let ?ev = "strict_env chain_plus90 [(Finite 90, (0, 1, 2, 3))]"
  have idx: "dihedral_indices ?ar = Some (1, 2, 3, 4)" by (simp add: cli_def)
  have n: "dihedral_angle ?ar = None" by (simp add: cli_def)
  have la: "rows (load_atoms ?ev ?ar) = rows chain_plus90"
    by (simp add: load_atoms_def strict_env_simps)
  have dc: "dihedral_constraint (load_atoms ?ev ?ar) ?ar = Inr [(Finite 90, (0, 1, 2, 3))]"
    using dihedral_of_chain_plus90[OF la]
    by (simp add: dihedral_constraint_def target_angle_def cli_def)
  have rl: "relax ?ev (load_atoms ?ev ?ar) [(Finite 90, (0, 1, 2, 3))]
              = Inr \<lparr>final_atoms = load_atoms ?ev ?ar, final_energy = Finite (- 1),
                     log_lines = []\<rparr>"
    by (simp add: strict_env_simps)
  have aa: "actual_angle_deg (load_atoms ?ev ?ar) ?ar
              = Inr (Some (normalize_to_0_360 (Finite 90)))"
    using dihedral_of_chain_plus90[OF la] by (simp add: actual_angle_deg_def cli_def)
  have cm: "\<exists>c. comment ?ev ?ar (Some (normalize_to_0_360 (Finite 90))) (Finite (- 1)) = Inr c"
    by (simp add: comment_def cli_def)
  obtain out where h: "main ?ev ?ar = Inr out"
    using main_ok[OF dc rl] aa cm by auto
  from target_angle_and_source[OF h idx] n obtain r :: relaxed and d where
    "file_lines out ! 1 =
       ''dihedral='' @ str_int 1 @ ''-'' @ str_int 2 @ ''-'' @ str_int 3 @ ''-'' @ str_int 4
       @ '' actual_angle='' @ fmt_f ?ev 2 (normalize_to_0_360 d)
       @ '' energy='' @ fmt_f ?ev 6 (final_energy r)
       @ '' eV charge='' @ str_float ?ev (charge ?ar)
       @ '' spin='' @ str_float ?ev (spin ?ar)
       @ '' constraint_source=fixed_current''"
    by (elim conjE impE exE) assumption
  then have "file_lines out ! 1 =
           ''dihedral=1-2-3-4 actual_angle=F energy=F eV charge=S spin=S constraint_source=fixed_current''"
    by (simp add: strict_env_simps str_int_def str_nat.simps)
  with h show ?thesis by blast
qed

text \<open>
  C5, as the specification states it: the normalisation returns a value in \<open>[0, 360)\<close>.
  On binary64, for \<open>x = -2^-60\<close> the remainder \<open>fmod(x, 360)\<close> is \<open>x\<close> itself, and the
  sum \<open>x + 360\<close> rounds to \<open>360\<close>.
\<close>

theorem normalize_b64_returns_360: "normalize_to_0_360_b64 (Finite (- (1 / 2 ^ 60))) = Finite 360"
  using c_fmod_tiny_neg[of "- (1 / 2 ^ 60)"] rd_360_minus_60
  by (simp add: normalize_b64_eq Let_def)

text \<open>
  C5, amended: for every \<open>x\<close> the normalisation on binary64 returns a value in
  \<open>[0, 360]\<close> that differs by at most \<open>2^-45\<close> from the exact remainder
  \<open>x - 360 * floor(x / 360)\<close>, the number in \<open>[0, 360)\<close> congruent to \<open>x\<close> modulo \<open>360\<close>;
  for \<open>x \<ge> 0\<close> it is exactly that remainder, so it lies in \<open>[0, 360)\<close> and is congruent
  to \<open>x\<close>.
\<close>

theorem normalize_b64_range_congruent: "\<exists>y. normalize_to_0_360_b64 (Finite x) = Finite y \<and> 0 \<le> y \<and> y \<le> 360
       \<and> \<bar>y - (x - 360 * of_int \<lfloor>x / 360\<rfloor>)\<bar> \<le> 1 / 2 ^ 45
       \<and> (0 \<le> x \<longrightarrow> y = x - 360 * of_int \<lfloor>x / 360\<rfloor> \<and> y < 360)"
  using np_remainder_360_bounds[of x] by (simp add: normalize_b64_eq)

theorem normalize_b64_range_congruent_witness:
  "(0::real) \<le> 450 \<and> normalize_to_0_360_b64 (Finite 450) = Finite 90"
proof -
  have f: "\<lfloor>(450::real) / 360\<rfloor> = 1" by (simp add: floor_eq_iff)
  from normalize_b64_range_congruent[of 450] obtain y where
    "normalize_to_0_360_b64 (Finite 450) = Finite y"
    "0 \<le> (450::real) \<longrightarrow> y = 450 - 360 * of_int \<lfloor>(450::real) / 360\<rfloor> \<and> y < 360"
    by blast
  then show ?thesis using f by simp
qed

text \<open>
  C6: in every run that completes with indices and a target angle \<open>t\<close>, the optimiser is
  called with the constraint whose target is \<open>t\<close> itself, and \<open>t\<close> is the angle printed as
  the target; the angle printed and written after the optimisation is the dihedral of the
  relaxed structure passed through the normalisation, which lies in \<open>[0, 360)\<close> whenever
  that dihedral is a number.
\<close>

theorem user_target_not_normalized:
  assumes "main ev ar = Inr out" and "dihedral_indices ar = Some (i, j, k, l)"
    and "dihedral_angle ar = Some t"
  shows "\<exists>r d.
           relax ev (load_atoms ev ar) [(t, (i - 1, j - 1, k - 1, l - 1))] = Inr r
         \<and> dihedral_of (final_atoms r) (i - 1, j - 1, k - 1, l - 1) = Inr d
         \<and> ''Using user-specified target dihedral angle: '' @ fmt_f ev 2 t @ degree_sign
               \<in> set (stdout out)
         \<and> ''Actual dihedral angle: '' @ fmt_f ev 2 (normalize_to_0_360 d) @ degree_sign
               \<in> set (stdout out)
         \<and> file_lines out ! 1 =
                 ''dihedral='' @ str_int i @ ''-'' @ str_int j @ ''-'' @ str_int k
                 @ ''-'' @ str_int l
                 @ '' actual_angle='' @ fmt_f ev 2 (normalize_to_0_360 d)
                 @ '' energy='' @ fmt_f ev 6 (final_energy r)
                 @ '' eV charge='' @ str_float ev (charge ar)
                 @ '' spin='' @ str_float ev (spin ar)
                 @ '' constraint_source=user_specified''
         \<and> (\<forall>x. d = Finite x \<longrightarrow>
               (\<exists>y. normalize_to_0_360 d = Finite y \<and> 0 \<le> y \<and> y < 360))"
proof -
  from main_constrained[OF assms(1,2)] obtain t0 r d where
    s: "target_angle (load_atoms ev ar) ar (i - 1, j - 1, k - 1, l - 1) = Inr t0"
       "relax ev (load_atoms ev ar) [(t0, (i - 1, j - 1, k - 1, l - 1))] = Inr r"
       "dihedral_of (final_atoms r) (i - 1, j - 1, k - 1, l - 1) = Inr d"
       "file_lines out ! 1 =
                 ''dihedral='' @ str_int i @ ''-'' @ str_int j @ ''-'' @ str_int k
                 @ ''-'' @ str_int l
                 @ '' actual_angle='' @ fmt_f ev 2 (normalize_to_0_360 d)
                 @ '' energy='' @ fmt_f ev 6 (final_energy r)
                 @ '' eV charge='' @ str_float ev (charge ar)
                 @ '' spin='' @ str_float ev (spin ar)
                 @ '' constraint_source='' @ angle_source ar"
       "set (setup_lines ev (load_atoms ev ar) ar) \<subseteq> set (stdout out)"
       "''Actual dihedral angle: '' @ fmt_f ev 2 (normalize_to_0_360 d) @ degree_sign
               \<in> set (stdout out)"
    by blast
  have tt: "t0 = t" using s(1) assms(3) by (simp add: target_angle_def)
  have src: "angle_source ar = ''user_specified''" using assms(3) by (simp add: angle_source_def)
  have pr: "''Using user-specified target dihedral angle: '' @ fmt_f ev 2 t @ degree_sign
               \<in> set (stdout out)"
    using setup_lines_user[OF assms(2,3), of ev "load_atoms ev ar"] s(5) by auto
  have rng: "\<forall>x. d = Finite x \<longrightarrow>
               (\<exists>y. normalize_to_0_360 d = Finite y \<and> 0 \<le> y \<and> y < 360)"
    using normalize_finite_range by simp
  have rl: "relax ev (load_atoms ev ar) [(t, (i - 1, j - 1, k - 1, l - 1))] = Inr r"
    using s(2) unfolding tt .
  have ln: "file_lines out ! 1 =
                 ''dihedral='' @ str_int i @ ''-'' @ str_int j @ ''-'' @ str_int k
                 @ ''-'' @ str_int l
                 @ '' actual_angle='' @ fmt_f ev 2 (normalize_to_0_360 d)
                 @ '' energy='' @ fmt_f ev 6 (final_energy r)
                 @ '' eV charge='' @ str_float ev (charge ar)
                 @ '' spin='' @ str_float ev (spin ar)
                 @ '' constraint_source=user_specified''"
    using s(4) src by simp
  show ?thesis
    by (rule exI[of _ r], rule exI[of _ d], (intro conjI; fact rl s(3) pr s(6) ln rng))
qed

theorem user_target_not_normalized_witness:
  "\<exists>out. main (strict_env chain_minus90 [(Finite (- 90), (0, 1, 2, 3))])
             (cli (Some (1, 2, 3, 4)) (Some (Finite (- 90)))) = Inr out
       \<and> file_lines out ! 1 =
           ''dihedral=1-2-3-4 actual_angle=F energy=F eV charge=S spin=S constraint_source=user_specified''
       \<and> dihedral_of chain_minus90 (0, 1, 2, 3) = Inr (Finite (- 90))
       \<and> normalize_to_0_360 (Finite (- 90)) = Finite 270"
proof -
  let ?ar = "cli (Some (1, 2, 3, 4)) (Some (Finite (- 90)))"
  let ?ev = "strict_env chain_minus90 [(Finite (- 90), (0, 1, 2, 3))]"
  have idx: "dihedral_indices ?ar = Some (1, 2, 3, 4)" by (simp add: cli_def)
  have u: "dihedral_angle ?ar = Some (Finite (- 90))" by (simp add: cli_def)
  have la: "rows (load_atoms ?ev ?ar) = rows chain_minus90"
    by (simp add: load_atoms_def strict_env_simps)
  have dc: "dihedral_constraint (load_atoms ?ev ?ar) ?ar = Inr [(Finite (- 90), (0, 1, 2, 3))]"
    by (simp add: dihedral_constraint_def target_angle_def cli_def)
  have rl: "relax ?ev (load_atoms ?ev ?ar) [(Finite (- 90), (0, 1, 2, 3))]
              = Inr \<lparr>final_atoms = load_atoms ?ev ?ar, final_energy = Finite (- 1),
                     log_lines = []\<rparr>"
    by (simp add: strict_env_simps)
  have aa: "actual_angle_deg (load_atoms ?ev ?ar) ?ar
              = Inr (Some (normalize_to_0_360 (Finite (- 90))))"
    using dihedral_of_chain_minus90[OF la] by (simp add: actual_angle_deg_def cli_def)
  have cm: "\<exists>c. comment ?ev ?ar (Some (normalize_to_0_360 (Finite (- 90)))) (Finite (- 1)) = Inr c"
    by (simp add: comment_def cli_def)
  obtain out where h: "main ?ev ?ar = Inr out"
    using main_ok[OF dc rl] aa cm by auto
  from user_target_not_normalized[OF h idx u] obtain r :: relaxed and d where
    "file_lines out ! 1 =
       ''dihedral='' @ str_int 1 @ ''-'' @ str_int 2 @ ''-'' @ str_int 3 @ ''-'' @ str_int 4
       @ '' actual_angle='' @ fmt_f ?ev 2 (normalize_to_0_360 d)
       @ '' energy='' @ fmt_f ?ev 6 (final_energy r)
       @ '' eV charge='' @ str_float ?ev (charge ?ar)
       @ '' spin='' @ str_float ?ev (spin ?ar)
       @ '' constraint_source=user_specified''"
    by (elim conjE exE)
  then have line: "file_lines out ! 1 =
           ''dihedral=1-2-3-4 actual_angle=F energy=F eV charge=S spin=S constraint_source=user_specified''"
    by (simp add: strict_env_simps str_int_def str_nat.simps)
  have z: "normalize_to_0_360 (Finite (- 90)) = Finite 270"
    by (simp add: normalize_to_0_360_def)
  show ?thesis using h line dihedral_of_chain_minus90[of chain_minus90] z by blast
qed

text \<open>
  C7, as the specification states it: reversing the order of the four points negates
  the angle. For a right-angle arrangement both orders give \<open>+90\<close>.
\<close>

theorem calc_dihedral_reversal_not_negated:
  "nondegenerate (1, 0, 0) (0, 0, 0) (0, 0, 1) (0, 1, 1)
   \<and> calc_dihedral (1, 0, 0) (0, 0, 0) (0, 0, 1) (0, 1, 1) = Finite 90
   \<and> calc_dihedral (0, 1, 1) (0, 0, 1) (0, 0, 0) (1, 0, 0) = Finite 90
   \<and> calc_dihedral (0, 1, 1) (0, 0, 1) (0, 0, 0) (1, 0, 0) \<noteq> Finite (- 90)"
  by (simp add: nondegenerate_def calc_dihedral_def Let_def)

text \<open>
  C7, amended: for every non-degenerate configuration \<open>calc_dihedral\<close> on
  \<open>(p4, p3, p2, p1)\<close> returns the same angle, magnitude and sign, as on
  \<open>(p1, p2, p3, p4)\<close>.
\<close>

theorem calc_dihedral_reversal_same:
  assumes "nondegenerate p1 p2 p3 p4"
  shows "\<exists>a. calc_dihedral p1 p2 p3 p4 = Finite a \<and> calc_dihedral p4 p3 p2 p1 = Finite a"
  using calc_dihedral_range[OF assms] calc_dihedral_rev[of p4 p3 p2 p1] by auto

theorem calc_dihedral_reversal_same_witness:
  "nondegenerate (1, 0, 0) (0, 0, 0) (0, 0, 1) (0, - 1, 1)
   \<and> calc_dihedral (1, 0, 0) (0, 0, 0) (0, 0, 1) (0, - 1, 1) = Finite (- 90)
   \<and> (\<exists>a. calc_dihedral (1, 0, 0) (0, 0, 0) (0, 0, 1) (0, - 1, 1) = Finite a
          \<and> calc_dihedral (0, - 1, 1) (0, 0, 1) (0, 0, 0) (1, 0, 0) = Finite a)"
proof -
  have h: "nondegenerate (1, 0, 0) (0, 0, 0) (0, 0, 1) (0, - 1, 1)"
    by (simp add: nondegenerate_def)
  have v: "calc_dihedral (1, 0, 0) (0, 0, 0) (0, 0, 1) (0, - 1, 1) = Finite (- 90)"
    by (simp add: calc_dihedral_def Let_def)
  show ?thesis using h v calc_dihedral_reversal_same[OF h] by blast
qed

text \<open>
  C8: in a run that completes, the second line of the output file is, without indices,
  \<open>energy=<E:.6f> eV charge=<C> spin=<S>\<close>, and with indices
  \<open>dihedral=<i>-<j>-<k>-<l> actual_angle=<A:.2f> energy=<E:.6f> eV charge=<C> spin=<S>
  constraint_source=<fixed_current|user_specified>\<close>, where \<open>i, j, k, l\<close> are the indices
  as given on the command line, \<open>E\<close> is the energy the optimiser returned and \<open>A\<close> is the
  normalised dihedral of the relaxed structure, in \<open>[0, 360)\<close> whenever that dihedral is a
  number.
\<close>

theorem annotation_line_format:
  assumes "main ev ar = Inr out"
  shows "\<exists>cons r. dihedral_constraint (load_atoms ev ar) ar = Inr cons
       \<and> relax ev (load_atoms ev ar) cons = Inr r
       \<and> (dihedral_indices ar = None \<longrightarrow>
            file_lines out ! 1 =
              ''energy='' @ fmt_f ev 6 (final_energy r)
              @ '' eV charge='' @ str_float ev (charge ar)
              @ '' spin='' @ str_float ev (spin ar))
       \<and> (\<forall>i j k l. dihedral_indices ar = Some (i, j, k, l) \<longrightarrow>
            (\<exists>d. dihedral_of (final_atoms r) (i - 1, j - 1, k - 1, l - 1) = Inr d
               \<and> file_lines out ! 1 =
                   ''dihedral='' @ str_int i @ ''-'' @ str_int j @ ''-'' @ str_int k
                   @ ''-'' @ str_int l
                   @ '' actual_angle='' @ fmt_f ev 2 (normalize_to_0_360 d)
                   @ '' energy='' @ fmt_f ev 6 (final_energy r)
                   @ '' eV charge='' @ str_float ev (charge ar)
                   @ '' spin='' @ str_float ev (spin ar)
                   @ '' constraint_source='' @ angle_source ar
               \<and> (angle_source ar = ''fixed_current'' \<or> angle_source ar = ''user_specified'')
               \<and> (\<forall>x. d = Finite x \<longrightarrow>
                     (\<exists>y. normalize_to_0_360 d = Finite y \<and> 0 \<le> y \<and> y < 360))))"
proof -
  from main_Inr[OF assms] obtain cons r actual c where
    m: "dihedral_constraint (load_atoms ev ar) ar = Inr cons"
       "relax ev (load_atoms ev ar) cons = Inr r"
       "actual_angle_deg (final_atoms r) ar = Inr actual"
       "comment ev ar actual (final_energy r) = Inr c"
       "file_lines out =
             str_int (int (length (rows (final_atoms r)))) # c
             # map (atom_line ev) (rows (final_atoms r))"
    by blast
  have l1: "file_lines out ! 1 = c" using m(5) by simp
  have un: "file_lines out ! 1 =
              ''energy='' @ fmt_f ev 6 (final_energy r)
              @ '' eV charge='' @ str_float ev (charge ar)
              @ '' spin='' @ str_float ev (spin ar)" if "dihedral_indices ar = None"
    using that m(4) l1 by (simp add: comment_def)
  have co: "\<exists>d. dihedral_of (final_atoms r) (i - 1, j - 1, k - 1, l - 1) = Inr d
               \<and> file_lines out ! 1 =
                   ''dihedral='' @ str_int i @ ''-'' @ str_int j @ ''-'' @ str_int k
                   @ ''-'' @ str_int l
                   @ '' actual_angle='' @ fmt_f ev 2 (normalize_to_0_360 d)
                   @ '' energy='' @ fmt_f ev 6 (final_energy r)
                   @ '' eV charge='' @ str_float ev (charge ar)
                   @ '' spin='' @ str_float ev (spin ar)
                   @ '' constraint_source='' @ angle_source ar
               \<and> (angle_source ar = ''fixed_current'' \<or> angle_source ar = ''user_specified'')
               \<and> (\<forall>x. d = Finite x \<longrightarrow>
                     (\<exists>y. normalize_to_0_360 d = Finite y \<and> 0 \<le> y \<and> y < 360))"
    if idx: "dihedral_indices ar = Some (i, j, k, l)" for i j k l
  proof -
    from m(3) obtain d where
      d: "dihedral_of (final_atoms r) (i - 1, j - 1, k - 1, l - 1) = Inr d"
         "actual = Some (normalize_to_0_360 d)"
      unfolding actual_angle_deg_Some[OF idx] by (auto split: sum.splits)
    have ceq: "c = ''dihedral='' @ str_int i @ ''-'' @ str_int j @ ''-'' @ str_int k
                   @ ''-'' @ str_int l
                   @ '' actual_angle='' @ fmt_f ev 2 (normalize_to_0_360 d)
                   @ '' energy='' @ fmt_f ev 6 (final_energy r)
                   @ '' eV charge='' @ str_float ev (charge ar)
                   @ '' spin='' @ str_float ev (spin ar)
                   @ '' constraint_source='' @ angle_source ar"
      using m(4) idx d(2) by (simp add: comment_def)
    have src: "angle_source ar = ''fixed_current'' \<or> angle_source ar = ''user_specified''"
      by (simp add: angle_source_def)
    have rng: "\<forall>x. d = Finite x \<longrightarrow>
                 (\<exists>y. normalize_to_0_360 d = Finite y \<and> 0 \<le> y \<and> y < 360)"
      using normalize_finite_range by simp
    show ?thesis
    proof (rule exI[of _ d], intro conjI)
      show "dihedral_of (final_atoms r) (i - 1, j - 1, k - 1, l - 1) = Inr d" by (fact d(1))
    next
      show "file_lines out ! 1 =
                   ''dihedral='' @ str_int i @ ''-'' @ str_int j @ ''-'' @ str_int k
                   @ ''-'' @ str_int l
                   @ '' actual_angle='' @ fmt_f ev 2 (normalize_to_0_360 d)
                   @ '' energy='' @ fmt_f ev 6 (final_energy r)
                   @ '' eV charge='' @ str_float ev (charge ar)
                   @ '' spin='' @ str_float ev (spin ar)
                   @ '' constraint_source='' @ angle_source ar"
        unfolding l1 by (fact ceq)
    next
      show "angle_source ar = ''fixed_current'' \<or> angle_source ar = ''user_specified''"
        by (fact src)
    next
      show "\<forall>x. d = Finite x \<longrightarrow>
                 (\<exists>y. normalize_to_0_360 d = Finite y \<and> 0 \<le> y \<and> y < 360)"
        by (fact rng)
    qed
  qed
  show ?thesis
  proof (rule exI[of _ cons], rule exI[of _ r], intro conjI impI allI)
    show "dihedral_constraint (load_atoms ev ar) ar = Inr cons" by (fact m(1))
  next
    show "relax ev (load_atoms ev ar) cons = Inr r" by (fact m(2))
  next
    assume "dihedral_indices ar = None"
    then show "file_lines out ! 1 =
              ''energy='' @ fmt_f ev 6 (final_energy r)
              @ '' eV charge='' @ str_float ev (charge ar)
              @ '' spin='' @ str_float ev (spin ar)"
      by (rule un)
  next
    fix i j k l
    assume "dihedral_indices ar = Some (i, j, k, l)"
    then show "\<exists>d. dihedral_of (final_atoms r) (i - 1, j - 1, k - 1, l - 1) = Inr d
               \<and> file_lines out ! 1 =
                   ''dihedral='' @ str_int i @ ''-'' @ str_int j @ ''-'' @ str_int k
                   @ ''-'' @ str_int l
                   @ '' actual_angle='' @ fmt_f ev 2 (normalize_to_0_360 d)
                   @ '' energy='' @ fmt_f ev 6 (final_energy r)
                   @ '' eV charge='' @ str_float ev (charge ar)
                   @ '' spin='' @ str_float ev (spin ar)
                   @ '' constraint_source='' @ angle_source ar
               \<and> (angle_source ar = ''fixed_current'' \<or> angle_source ar = ''user_specified'')
               \<and> (\<forall>x. d = Finite x \<longrightarrow>
                     (\<exists>y. normalize_to_0_360 d = Finite y \<and> 0 \<le> y \<and> y < 360))"
      by (rule co)
  qed
qed

theorem annotation_line_format_witness:
  "\<exists>out. main (stub_env chain_minus90) (cli (Some (1, 2, 3, 4)) None) = Inr out
       \<and> file_lines out ! 1 =
           ''dihedral=1-2-3-4 actual_angle=F energy=F eV charge=S spin=S constraint_source=fixed_current''
       \<and> dihedral_of chain_minus90 (0, 1, 2, 3) = Inr (Finite (- 90))
       \<and> normalize_to_0_360 (Finite (- 90)) = Finite 270"
proof -
  let ?ar = "cli (Some (1, 2, 3, 4)) None"
  let ?ev = "stub_env chain_minus90"
  have idx: "dihedral_indices ?ar = Some (1, 2, 3, 4)" by (simp add: cli_def)
  have d0: "dihedral_of b (0, 1, 2, 3) = Inr (Finite (- 90))" if "rows b = rows chain_minus90" for b
    using that
    by (simp add: dihedral_of.simps get_positions_def np_row_def chain_minus90_def
        calc_dihedral_def Let_def)
  have la: "rows (load_atoms ?ev ?ar) = rows chain_minus90"
    by (simp add: load_atoms_def ev_simps)
  have dc: "dihedral_constraint (load_atoms ?ev ?ar) ?ar = Inr [(Finite (- 90), (0, 1, 2, 3))]"
    using d0[OF la] by (simp add: dihedral_constraint_def target_angle_def cli_def)
  have aa: "actual_angle_deg (load_atoms ?ev ?ar) ?ar = Inr (Some (normalize_to_0_360 (Finite (- 90))))"
    using d0[OF la] by (simp add: actual_angle_deg_def cli_def)
  have rl: "relax ?ev (load_atoms ?ev ?ar) [(Finite (- 90), (0, 1, 2, 3))]
              = Inr \<lparr>final_atoms = load_atoms ?ev ?ar, final_energy = Finite (- 1),
                     log_lines = []\<rparr>"
    by (simp add: ev_simps)
  have cm: "\<exists>c. comment ?ev ?ar (Some (normalize_to_0_360 (Finite (- 90)))) (Finite (- 1)) = Inr c"
    by (simp add: comment_def cli_def)
  obtain out where h: "main ?ev ?ar = Inr out"
    using main_ok[OF dc rl] aa cm by auto
  from annotation_line_format[OF h] obtain cons r where
    r: "relax ?ev (load_atoms ?ev ?ar) cons = Inr r"
    and c: "\<forall>i j k l. dihedral_indices ?ar = Some (i, j, k, l) \<longrightarrow>
            (\<exists>d. dihedral_of (final_atoms r) (i - 1, j - 1, k - 1, l - 1) = Inr d
               \<and> file_lines out ! 1 =
                   ''dihedral='' @ str_int i @ ''-'' @ str_int j @ ''-'' @ str_int k
                   @ ''-'' @ str_int l
                   @ '' actual_angle='' @ fmt_f ?ev 2 (normalize_to_0_360 d)
                   @ '' energy='' @ fmt_f ?ev 6 (final_energy r)
                   @ '' eV charge='' @ str_float ?ev (charge ?ar)
                   @ '' spin='' @ str_float ?ev (spin ?ar)
                   @ '' constraint_source='' @ angle_source ?ar
               \<and> (angle_source ?ar = ''fixed_current'' \<or> angle_source ?ar = ''user_specified'')
               \<and> (\<forall>x. d = Finite x \<longrightarrow>
                     (\<exists>y. normalize_to_0_360 d = Finite y \<and> 0 \<le> y \<and> y < 360)))"
    by (elim exE conjE)
  from c idx obtain d where
    "file_lines out ! 1 =
                   ''dihedral='' @ str_int 1 @ ''-'' @ str_int 2 @ ''-'' @ str_int 3
                   @ ''-'' @ str_int 4
                   @ '' actual_angle='' @ fmt_f ?ev 2 (normalize_to_0_360 d)
                   @ '' energy='' @ fmt_f ?ev 6 (final_energy r)
                   @ '' eV charge='' @ str_float ?ev (charge ?ar)
                   @ '' spin='' @ str_float ?ev (spin ?ar)
                   @ '' constraint_source='' @ angle_source ?ar"
    by (elim allE[of _ 1] allE[of _ 2] allE[of _ 3] allE[of _ 4] impE) (assumption, elim exE conjE)
  then have line: "file_lines out ! 1 =
           ''dihedral=1-2-3-4 actual_angle=F energy=F eV charge=S spin=S constraint_source=fixed_current''"
    by (simp add: ev_simps str_int_def str_nat.simps angle_source_def cli_def)
  have z: "normalize_to_0_360 (Finite (- 90)) = Finite 270"
    by (simp add: normalize_to_0_360_def)
  show ?thesis using h line d0[of chain_minus90] z by blast
qed

text \<open>
  C9, as the specification states it: the float modulo \<open>x % 360\<close> yields a value in
  \<open>[0, 360)\<close>. On binary64, \<open>-2^-70 % 360\<close> is \<open>360\<close>.
\<close>

theorem np_remainder_returns_360: "np_remainder (Finite (- (1 / 2 ^ 70))) 360 = Finite 360"
  using c_fmod_tiny_neg[of "- (1 / 2 ^ 70)"] rd_360_minus_70 by (simp add: Let_def)

text \<open>
  C9, amended: the normalisation (\<open>x % 360\<close>, then \<open>+ 360\<close> if the result is negative)
  equals plain \<open>x % 360\<close> on every value: on binary64 \<open>x % 360\<close> is never negative (for
  every finite \<open>x\<close> it lies in \<open>[0, 360]\<close>), so the correction is never taken.
\<close>

theorem normalize_b64_is_np_remainder: "normalize_to_0_360_b64 a = np_remainder a 360
   \<and> \<not> f_lt (np_remainder a 360) (Finite 0)
   \<and> (\<exists>y. np_remainder (Finite x) 360 = Finite y \<and> 0 \<le> y \<and> y \<le> 360)"
  using normalize_b64_eq[of a] not_lt0_np_remainder[of a] np_remainder_360_bounds[of x] by blast

text \<open>
  C10: without indices, the run does not depend on the target angle given: the whole
  result, printed lines and file, is the same as with no angle, the constraint list
  handed to the optimiser is empty, and the list is empty exactly when the indices are
  absent.
\<close>

theorem angle_without_indices_ignored:
  assumes "dihedral_indices ar = None"
  shows "main ev (ar\<lparr>dihedral_angle := t\<rparr>) = main ev (ar\<lparr>dihedral_angle := None\<rparr>)
       \<and> dihedral_constraint a (ar\<lparr>dihedral_angle := t\<rparr>) = Inr []
       \<and> \<not> use_dihedral_constraint (ar\<lparr>dihedral_angle := t\<rparr>)
       \<and> (\<forall>b ar'. dihedral_constraint b ar' = Inr [] \<longleftrightarrow> dihedral_indices ar' = None)"
proof -
  have i: "dihedral_indices (ar\<lparr>dihedral_angle := u\<rparr>) = None" for u
    using assms by simp
  have l: "load_atoms ev (ar\<lparr>dihedral_angle := u\<rparr>) = load_atoms ev ar" for u
    by (simp add: load_atoms_def)
  have "main ev (ar\<lparr>dihedral_angle := t\<rparr>) = main ev (ar\<lparr>dihedral_angle := None\<rparr>)"
    unfolding main_unconstrained[OF i] l by (simp cong: sum.case_cong)
  moreover have "dihedral_constraint a (ar\<lparr>dihedral_angle := t\<rparr>) = Inr []"
    using i dihedral_constraint_empty_iff by blast
  moreover have "\<not> use_dihedral_constraint (ar\<lparr>dihedral_angle := t\<rparr>)"
    using i by (simp add: use_dihedral_constraint_def)
  ultimately show ?thesis using dihedral_constraint_empty_iff by blast
qed

theorem angle_without_indices_ignored_witness:
  "dihedral_indices (cli None None) = None
   \<and> main (stub_env chain_plus90) ((cli None None)\<lparr>dihedral_angle := Some (Finite 90)\<rparr>)
       = main (stub_env chain_plus90) ((cli None None)\<lparr>dihedral_angle := None\<rparr>)
   \<and> dihedral_constraint chain_plus90 ((cli None None)\<lparr>dihedral_angle := Some (Finite 90)\<rparr>)
       = Inr []"
proof -
  have h: "dihedral_indices (cli None None) = None" by (simp add: cli_def)
  show ?thesis
    using h angle_without_indices_ignored[OF h, of "stub_env chain_plus90" "Some (Finite 90)" chain_plus90]
    by blast
qed

end
